theory Spec2Isabelle
  imports Main
begin

section \<open>Go strings\<close>

text \<open>
  A Go string is a sequence of bytes: \<^typ>\<open>string\<close>, with \<open>len\<close> as \<^const>\<open>length\<close>.
  The functions below are the ones of the Go standard library that the controllers call,
  for the arguments the controllers give them (a separator of one byte).
\<close>

text \<open>\<open>strings.HasPrefix(s, prefix)\<close>: \<open>len(s) >= len(prefix) && s[0:len(prefix)] == prefix\<close>.\<close>

definition HasPrefix :: "string \<Rightarrow> string \<Rightarrow> bool" where
  "HasPrefix s pre = (length pre \<le> length s \<and> take (length pre) s = pre)"

text \<open>\<open>strings.HasSuffix(s, suffix)\<close>.\<close>

definition HasSuffix :: "string \<Rightarrow> string \<Rightarrow> bool" where
  "HasSuffix s suf = (length suf \<le> length s \<and> drop (length s - length suf) s = suf)"

text \<open>
  \<open>strings.Split(s, sep)\<close> for a separator of one byte: the pieces between the
  separators, one more than there are separators; \<open>Split("", sep)\<close> is \<open>[""]\<close>.
\<close>

fun Split :: "string \<Rightarrow> char \<Rightarrow> string list" where
  "Split [] sep = [[]]"
| "Split (c # cs) sep =
     (if c = sep then [] # Split cs sep
      else (case Split cs sep of
              [] \<Rightarrow> [[c]]
            | p # ps \<Rightarrow> (c # p) # ps))"

text \<open>\<open>strings.Index(s, sep)\<close> for a separator of one byte: the first position, or -1.\<close>

fun Index :: "string \<Rightarrow> char \<Rightarrow> int" where
  "Index [] sep = - 1"
| "Index (c # cs) sep =
     (if c = sep then 0
      else (let i = Index cs sep in if i < 0 then - 1 else i + 1))"

text \<open>
  \<open>strings.TrimSpace(s)\<close>: \<open>s\<close> without its leading and trailing white space, as
  \<open>unicode.IsSpace\<close> defines it on the UTF-8 decoding of \<open>s\<close>: the six ASCII space
  characters, U+0085, U+00A0, U+1680, U+2000 to U+200A, U+2028, U+2029, U+202F, U+205F
  and U+3000. \<open>spaceRunes\<close> lists their encodings.
\<close>

definition spaceRunes :: "string list" where
  "spaceRunes =
     [[CHR 0x09], [CHR 0x0A], [CHR 0x0B], [CHR 0x0C], [CHR 0x0D], [CHR 0x20],
      [CHR 0xC2, CHR 0x85], [CHR 0xC2, CHR 0xA0],
      [CHR 0xE1, CHR 0x9A, CHR 0x80],
      [CHR 0xE2, CHR 0x80, CHR 0x80], [CHR 0xE2, CHR 0x80, CHR 0x81],
      [CHR 0xE2, CHR 0x80, CHR 0x82], [CHR 0xE2, CHR 0x80, CHR 0x83],
      [CHR 0xE2, CHR 0x80, CHR 0x84], [CHR 0xE2, CHR 0x80, CHR 0x85],
      [CHR 0xE2, CHR 0x80, CHR 0x86], [CHR 0xE2, CHR 0x80, CHR 0x87],
      [CHR 0xE2, CHR 0x80, CHR 0x88], [CHR 0xE2, CHR 0x80, CHR 0x89],
      [CHR 0xE2, CHR 0x80, CHR 0x8A],
      [CHR 0xE2, CHR 0x80, CHR 0xA8], [CHR 0xE2, CHR 0x80, CHR 0xA9],
      [CHR 0xE2, CHR 0x80, CHR 0xAF], [CHR 0xE2, CHR 0x81, CHR 0x9F],
      [CHR 0xE3, CHR 0x80, CHR 0x80]]"

text \<open>The length of the white-space rune that \<open>s\<close> starts with, 0 when there is none.\<close>

definition leadingSpace :: "string \<Rightarrow> nat" where
  "leadingSpace s =
     (case filter (HasPrefix s) spaceRunes of [] \<Rightarrow> 0 | r # _ \<Rightarrow> length r)"

text \<open>The length of the white-space rune that \<open>s\<close> ends with, 0 when there is none.\<close>

definition trailingSpace :: "string \<Rightarrow> nat" where
  "trailingSpace s =
     (case filter (HasSuffix s) spaceRunes of [] \<Rightarrow> 0 | r # _ \<Rightarrow> length r)"

function TrimLeft :: "string \<Rightarrow> string" where
  "TrimLeft s = (if leadingSpace s = 0 then s else TrimLeft (drop (leadingSpace s) s))"
  by pat_completeness auto
termination
proof (relation "measure length")
  fix s :: string
  assume pos: "leadingSpace s \<noteq> 0"
  then obtain r rs where rs: "filter (HasPrefix s) spaceRunes = r # rs"
    by (cases "filter (HasPrefix s) spaceRunes") (simp_all add: leadingSpace_def)
  then have "r \<in> set (filter (HasPrefix s) spaceRunes)" by simp
  then have "HasPrefix s r" by simp
  with rs have "leadingSpace s \<le> length s"
    by (simp add: leadingSpace_def HasPrefix_def)
  with pos show "(drop (leadingSpace s) s, s) \<in> measure length"
    by simp
qed simp

function TrimRight :: "string \<Rightarrow> string" where
  "TrimRight s =
     (if trailingSpace s = 0 then s
      else TrimRight (take (length s - trailingSpace s) s))"
  by pat_completeness auto
termination
proof (relation "measure length")
  fix s :: string
  assume pos: "trailingSpace s \<noteq> 0"
  then obtain r rs where rs: "filter (HasSuffix s) spaceRunes = r # rs"
    by (cases "filter (HasSuffix s) spaceRunes") (simp_all add: trailingSpace_def)
  then have "r \<in> set (filter (HasSuffix s) spaceRunes)" by simp
  then have "HasSuffix s r" by simp
  with rs have "trailingSpace s \<le> length s"
    by (simp add: trailingSpace_def HasSuffix_def)
  with pos show "(take (length s - trailingSpace s) s, s) \<in> measure length"
    by simp
qed simp

declare TrimLeft.simps [simp del] TrimRight.simps [simp del]

definition TrimSpace :: "string \<Rightarrow> string" where
  "TrimSpace s = TrimRight (TrimLeft s)"

text \<open>
  \<open>strconv.Atoi(s)\<close> on a 64-bit platform: an optional sign, then one or more decimal
  digits, and a value that fits \<open>int\<close>; every other string is an error (\<open>None\<close>).
\<close>

definition isDigit :: "char \<Rightarrow> bool" where
  "isDigit c = (48 \<le> (of_char c :: nat) \<and> (of_char c :: nat) \<le> 57)"

fun digitsValue :: "nat \<Rightarrow> string \<Rightarrow> nat option" where
  "digitsValue acc [] = Some acc"
| "digitsValue acc (c # cs) =
     (if isDigit c then digitsValue (10 * acc + (of_char c - 48)) cs else None)"

definition Atoi :: "string \<Rightarrow> int option" where
  "Atoi s =
     (let neg = (s \<noteq> [] \<and> hd s = CHR ''-'');
          body = (if s \<noteq> [] \<and> (hd s = CHR ''-'' \<or> hd s = CHR ''+'') then tl s else s)
      in if body = [] then None
         else (case digitsValue 0 body of
                 None \<Rightarrow> None
               | Some n \<Rightarrow>
                   (let v = (if neg then - int n else int n)
                    in if - (2 ^ 63) \<le> v \<and> v \<le> 2 ^ 63 - 1 then Some v else None)))"

text \<open>\<open>strconv.ParseBool(s)\<close>: the twelve spellings it accepts, an error otherwise.\<close>

definition ParseBool :: "string \<Rightarrow> bool option" where
  "ParseBool s =
     (if s \<in> set [''1'', ''t'', ''T'', ''TRUE'', ''true'', ''True''] then Some True
      else if s \<in> set [''0'', ''f'', ''F'', ''FALSE'', ''false'', ''False''] then Some False
      else None)"

section \<open>HTTP\<close>

abbreviation StatusOK :: nat where "StatusOK \<equiv> 200"
abbreviation StatusCreated :: nat where "StatusCreated \<equiv> 201"
abbreviation StatusBadRequest :: nat where "StatusBadRequest \<equiv> 400"
abbreviation StatusForbidden :: nat where "StatusForbidden \<equiv> 403"
abbreviation StatusInternalServerError :: nat where "StatusInternalServerError \<equiv> 500"

text \<open>
  How a handler ends without its result: \<open>ctx.AbortWithError(code, err)\<close>,
  \<open>AbortWithReturnError(ctx, code, err)\<close>, or \<open>ctx.JSON(code, gin.H{"error": ...})\<close>,
  each with the status code and the message of the error; \<open>NoParam\<close> is the plain
  \<open>return\<close> after \<open>GetParam(ctx, name)\<close> gave an error.
\<close>

datatype failure =
    AbortWithError nat string
  | AbortWithReturnError nat string
  | JSONError nat string
  | NoParam string

text \<open>
  The answers of the handlers of \<open>users.go\<close> that succeed:
  \<open>ctx.JSON(code, gin.H{"info": ...})\<close>, and the \<open>message\<close>, \<open>username\<close>,
  \<open>password\<close> and \<open>url\<close> that \<open>Convert\<close> and \<open>ResetSystemUser\<close> answer.
\<close>

datatype reply =
    JSONInfo nat string
  | JSONAccount nat string string string string

text \<open>
  The status code that the write of a handler carries. No handler that binds a body ends
  with \<open>NoParam\<close>; \<open>GetParam\<close> answers for itself.
\<close>

fun statusOf :: "failure + reply \<Rightarrow> nat" where
  "statusOf (Inl (AbortWithError code err)) = code"
| "statusOf (Inl (AbortWithReturnError code err)) = code"
| "statusOf (Inl (JSONError code err)) = code"
| "statusOf (Inl (NoParam name)) = StatusBadRequest"
| "statusOf (Inr (JSONInfo code info)) = code"
| "statusOf (Inr (JSONAccount code message username password url)) = code"

text \<open>The query string of a request: \<open>ctx.DefaultQuery\<close> and \<open>ctx.Query\<close>.\<close>

type_synonym query = "string \<rightharpoonup> string"

definition DefaultQuery :: "query \<Rightarrow> string \<Rightarrow> string \<Rightarrow> string" where
  "DefaultQuery q key dflt = (case q key of None \<Rightarrow> dflt | Some v \<Rightarrow> v)"

definition Query :: "query \<Rightarrow> string \<Rightarrow> string" where
  "Query q key = (case q key of None \<Rightarrow> [] | Some v \<Rightarrow> v)"

section \<open>The store\<close>

text \<open>
  Modelled from the spec: the type \<open>models.User\<close> is declared in the package
  \<open>models\<close>, which is not among the sources. These are the fields of the spec's data
  model that the controllers below read or write, with the token and the password that the
  lifecycle operations issue and the converter that \<open>ConvertToSystem\<close> records.
\<close>

record User =
  Username :: string
  Fullname :: string
  Email :: string
  IsSystem :: bool
  CanWriteNotifications :: bool
  ConvertedBy :: string
  TokenVerify :: string
  Password :: string
  FavoriteTopics :: "string list"
  TopicsNotificationsDisabled :: "string list"

text \<open>
  Modelled from the spec: \<open>models.Topic\<close>, identified by its hierarchical path. Its
  access lists are read only by \<open>IsUserReadAccess\<close>, which the controllers take as a
  parameter below.
\<close>

record Topic =
  Topic :: string

text \<open>
  The fire-and-forget calls of the controllers (\<open>go utils.SendVerifyEmail(...)\<close>,
  \<open>go utils.SendAskResetEmail(...)\<close>, \<open>go models.WSUser(...)\<close>), recorded in the order
  they are started.
\<close>

datatype effect =
    SendVerifyEmail string string string string
  | SendAskResetEmail string string string string
  | WSUser string string

text \<open>
  Modelled from the spec: the store behind the package \<open>models\<close>. It holds the users
  and the topics; \<open>storeDown\<close> is the store failure of the spec's error taxonomy
  (InternalError), under which every write fails; \<open>secrets\<close> is the supply of the
  unguessable tokens and passwords that the lifecycle operations issue, each used once;
  \<open>sent\<close> is the log of the asynchronous calls.
\<close>

record world =
  users :: "User list"
  topics :: "Topic list"
  storeDown :: bool
  secrets :: "string list"
  sent :: "effect list"

text \<open>Modelled from the spec: \<open>user.FindByUsername(username)\<close>, the store's
  \<open>FindUserByUsername\<close>; \<open>None\<close> is its error.\<close>

definition FindByUsername :: "world \<Rightarrow> string \<Rightarrow> User option" where
  "FindByUsername w name = find (\<lambda>u. Username u = name) (users w)"

text \<open>
  Modelled from the spec: the path under which the store keeps a topic. A path that
  arrives from a routed parameter never carries its leading separator, and the handlers
  hand it to the store as it arrives, so the store adds the separator.
\<close>

definition topicKey :: "string \<Rightarrow> string" where
  "topicKey path = (if path \<noteq> [] \<and> hd path \<noteq> CHR ''/'' then ''/'' @ path else path)"

text \<open>Modelled from the spec: \<open>topic.FindByTopic(path, flag)\<close>, the store's
  \<open>FindTopicByPath\<close>; \<open>None\<close> is its error. The controllers treat the error as
  "does not exist" whatever the flag they pass.\<close>

definition FindByTopic :: "world \<Rightarrow> string \<Rightarrow> bool \<Rightarrow> Topic option" where
  "FindByTopic w path flag = find (\<lambda>t. Topic t = topicKey path) (topics w)"

text \<open>Modelled from the spec: the three uniqueness probes of the store,
  \<open>UniquenessCheck(field, value)\<close>, each on the value it is given.\<close>

definition IsEmailExists :: "world \<Rightarrow> string \<Rightarrow> bool" where
  "IsEmailExists w email = list_ex (\<lambda>u. Email u = email) (users w)"

definition IsUsernameExists :: "world \<Rightarrow> string \<Rightarrow> bool" where
  "IsUsernameExists w username = list_ex (\<lambda>u. Username u = username) (users w)"

definition IsFullnameExists :: "world \<Rightarrow> string \<Rightarrow> bool" where
  "IsFullnameExists w fullname = list_ex (\<lambda>u. Fullname u = fullname) (users w)"

text \<open>Modelled from the spec: issuing one secret (a token or a password) from the
  supply; the error is a string, as a Go \<open>error\<close> is to the controllers.\<close>

definition issue :: "world \<Rightarrow> string + string \<times> world" where
  "issue w =
     (if storeDown w then Inl ''store failure''
      else (case secrets w of
              [] \<Rightarrow> Inl ''no secret''
            | s # rest \<Rightarrow> Inr (s, w\<lparr>secrets := rest\<rparr>)))"

text \<open>The users of the store, with \<open>f\<close> applied to the one named \<open>name\<close>.\<close>

definition updateUser :: "string \<Rightarrow> (User \<Rightarrow> User) \<Rightarrow> world \<Rightarrow> world" where
  "updateUser name f w =
     w\<lparr>users := map (\<lambda>u. if Username u = name then f u else u) (users w)\<rparr>"

text \<open>Modelled from the spec: \<open>user.Insert()\<close>, the store's \<open>InsertUser\<close>. The
  store enforces that the username, the email and the fullname are each unique among its
  users (spec 3 and 5): an insert that would repeat one of them fails. Otherwise it
  persists the user as pending, with a single-use verification token, and returns the
  token.\<close>

definition Insert :: "world \<Rightarrow> User \<Rightarrow> string + string \<times> world" where
  "Insert w user =
     (if list_ex (\<lambda>u. Username u = Username user \<or> Email u = Email user
                       \<or> Fullname u = Fullname user) (users w)
      then Inl ''duplicate key''
      else (case issue w of
              Inl err \<Rightarrow> Inl err
            | Inr (token, w') \<Rightarrow>
                Inr (token, w'\<lparr>users := users w' @ [user\<lparr>TokenVerify := token\<rparr>]\<rparr>)))"

text \<open>Modelled from the spec: \<open>user.AskReset()\<close>: it issues a single-use reset token
  to the user with this name and this email.\<close>

definition AskReset :: "world \<Rightarrow> User \<Rightarrow> string + string \<times> world" where
  "AskReset w user =
     (if \<not> list_ex (\<lambda>u. Username u = Username user \<and> Email u = Email user) (users w)
      then Inl ''no user''
      else (case issue w of
              Inl err \<Rightarrow> Inl err
            | Inr (token, w') \<Rightarrow>
                Inr (token,
                     w'\<lparr>users :=
                          map (\<lambda>u. if Username u = Username user \<and> Email u = Email user
                                    then u\<lparr>TokenVerify := token\<rparr> else u) (users w')\<rparr>)))"

text \<open>Modelled from the spec: \<open>user.ConvertToSystem(admin, canWriteNotifications)\<close>:
  it sets \<open>IsSystem\<close>, regenerates and returns the password, and records the acting
  admin as the converter.\<close>

definition ConvertToSystem :: "world \<Rightarrow> User \<Rightarrow> string \<Rightarrow> bool \<Rightarrow> string + string \<times> world" where
  "ConvertToSystem w user admin canWrite =
     (case issue w of
        Inl err \<Rightarrow> Inl err
      | Inr (password, w') \<Rightarrow>
          Inr (password,
               updateUser (Username user)
                 (\<lambda>u. u\<lparr>IsSystem := True, CanWriteNotifications := canWrite,
                          ConvertedBy := admin, Password := password\<rparr>) w'))"

text \<open>Modelled from the spec: \<open>user.ResetSystemUserPassword()\<close>: it regenerates and
  returns the password, with no other change.\<close>

definition ResetSystemUserPassword :: "world \<Rightarrow> User \<Rightarrow> string + string \<times> world" where
  "ResetSystemUserPassword w user =
     (case issue w of
        Inl err \<Rightarrow> Inl err
      | Inr (password, w') \<Rightarrow>
          Inr (password, updateUser (Username user) (\<lambda>u. u\<lparr>Password := password\<rparr>) w'))"

text \<open>Modelled from the spec: \<open>user.AddFavoriteTopic(topic)\<close> adds the path to the
  set of the user's favorites.\<close>

definition User_AddFavoriteTopic :: "world \<Rightarrow> User \<Rightarrow> string \<Rightarrow> string + world" where
  "User_AddFavoriteTopic w user topic =
     (if storeDown w then Inl ''store failure''
      else Inr (updateUser (Username user)
                  (\<lambda>u. u\<lparr>FavoriteTopics := List.insert (topicKey topic) (FavoriteTopics u)\<rparr>) w))"

text \<open>Modelled from the spec: \<open>user.RemoveFavoriteTopic(topic)\<close>, a tolerant removal:
  no error when the path is not a favorite.\<close>

definition User_RemoveFavoriteTopic :: "world \<Rightarrow> User \<Rightarrow> string \<Rightarrow> string + world" where
  "User_RemoveFavoriteTopic w user topic =
     (if storeDown w then Inl ''store failure''
      else Inr (updateUser (Username user)
                  (\<lambda>u. u\<lparr>FavoriteTopics := removeAll (topicKey topic) (FavoriteTopics u)\<rparr>) w))"

text \<open>Modelled from the spec: \<open>user.EnableNotificationsTopic(topic)\<close> takes the path
  out of the set of topics whose notifications are suppressed.\<close>

definition User_EnableNotificationsTopic :: "world \<Rightarrow> User \<Rightarrow> string \<Rightarrow> string + world" where
  "User_EnableNotificationsTopic w user topic =
     (if storeDown w then Inl ''store failure''
      else Inr (updateUser (Username user)
                  (\<lambda>u. u\<lparr>TopicsNotificationsDisabled :=
                             removeAll (topicKey topic) (TopicsNotificationsDisabled u)\<rparr>) w))"

text \<open>Modelled from the spec: \<open>user.CreatePrivateTopic(shortName)\<close>, the store's
  \<open>CreateTopic\<close> on \<open>/Private/<username>[/<shortName>]\<close>.\<close>

definition CreatePrivateTopic :: "world \<Rightarrow> User \<Rightarrow> string \<Rightarrow> string + world" where
  "CreatePrivateTopic w user shortName =
     (if storeDown w then Inl ''store failure''
      else Inr (w\<lparr>topics := topics w @
                   [\<lparr> Topic = ''/Private/'' @ Username user @
                                (if shortName \<noteq> [] then ''/'' @ shortName else []) \<rparr>]\<rparr>))"

section \<open>Presences controller\<close>

text \<open>\<open>models.PresenceCriteria\<close>, with the fields that \<open>presences.go\<close> sets.\<close>

record PresenceCriteria =
  pcSkip :: int
  pcLimit :: int
  pcIDPresence :: string
  pcStatus :: string
  pcUsername :: string
  pcDateMinPresence :: string
  pcDateMaxPresence :: string
  pcTopic :: string

text \<open>\<open>(*PresencesController).buildCriteria\<close>; \<open>Topic\<close> is left at its zero value.\<close>

definition PresencesController_buildCriteria :: "query \<Rightarrow> PresenceCriteria" where
  "PresencesController_buildCriteria q =
     \<lparr> pcSkip = (case Atoi (DefaultQuery q ''skip'' ''0'') of None \<Rightarrow> 0 | Some n \<Rightarrow> n),
       pcLimit = (case Atoi (DefaultQuery q ''limit'' ''100'') of None \<Rightarrow> 10 | Some n \<Rightarrow> n),
       pcIDPresence = Query q ''idPresence'',
       pcStatus = Query q ''status'',
       pcUsername = Query q ''username'',
       pcDateMinPresence = Query q ''dateMinPresence'',
       pcDateMaxPresence = Query q ''dateMaxPresence'',
       pcTopic = [] \<rparr>"

text \<open>\<open>(*PresencesController).preCheckUser\<close>, for the user name of the context.\<close>

definition preCheckUser :: "world \<Rightarrow> string \<Rightarrow> failure + User" where
  "preCheckUser w ctxUsername =
     (case FindByUsername w ctxUsername of
        None \<Rightarrow> Inl (AbortWithError StatusInternalServerError ''Error while fetching user.'')
      | Some user \<Rightarrow> Inr user)"

text \<open>
  Lines 82 to 86 of \<open>listWithCriteria\<close>: a topic that is not empty and does not start
  with \<open>/\<close> gets one.
\<close>

definition normalizeTopic :: "string \<Rightarrow> string" where
  "normalizeTopic t = (if t \<noteq> [] \<and> [hd t] \<noteq> ''/'' then ''/'' @ t else t)"

text \<open>
  \<open>(*PresencesController).listWithCriteria\<close> up to its call of
  \<open>models.ListPresences\<close>: the criteria it calls it with, or the failure that ends the
  handler before. \<open>IsUserReadAccess\<close> is \<open>topic.IsUserReadAccess(user)\<close> of the
  package \<open>models\<close>, \<open>ctxUsername\<close> is \<open>utils.GetCtxUsername(ctx)\<close>.
\<close>

definition listWithCriteria_criteria ::
  "(Topic \<Rightarrow> User \<Rightarrow> bool) \<Rightarrow> world \<Rightarrow> string \<Rightarrow> PresenceCriteria
     \<Rightarrow> failure + PresenceCriteria" where
  "listWithCriteria_criteria IsUserReadAccess w ctxUsername criteria =
     (case preCheckUser w ctxUsername of
        Inl e \<Rightarrow> Inl e
      | Inr user \<Rightarrow>
          (case FindByTopic w (pcTopic criteria) True of
             None \<Rightarrow>
               Inl (AbortWithError StatusBadRequest
                      (''topic '' @ pcTopic criteria @ '' does not exist''))
           | Some topic \<Rightarrow>
               if \<not> IsUserReadAccess topic user
               then Inl (AbortWithError StatusForbidden ''No Read Access to this topic.'')
               else
                 (let t = normalizeTopic (pcTopic criteria);
                      topicDM = ''/Private/'' @ ctxUsername @ ''/DM/''
                  in if HasPrefix t topicDM
                     then
                       (let part = Split t CHR ''/''
                        in if length part \<noteq> 5
                           then Inl (AbortWithError StatusInternalServerError
                                       (''Wrong topic name for DM:'' @ t))
                           else
                             (let topicInverse =
                                    ''/Private/'' @ part ! 4 @ ''/DM/'' @ ctxUsername
                              in Inr (criteria\<lparr>pcTopic := t @ '','' @ topicInverse\<rparr>)))
                     else Inr (criteria\<lparr>pcTopic := t\<rparr>))))"

text \<open>\<open>presencesJSON\<close>, the body of the answer, over the presences of the store.\<close>

record 'p presencesJSON =
  Count :: int
  Presences :: "'p list"

text \<open>
  \<open>(*PresencesController).listWithCriteria\<close>. \<open>ListPresences\<close> is
  \<open>models.ListPresences\<close>, with its error as \<open>Inl\<close>.
\<close>

definition listWithCriteria ::
  "(Topic \<Rightarrow> User \<Rightarrow> bool) \<Rightarrow> (PresenceCriteria \<Rightarrow> string + int \<times> 'p list)
     \<Rightarrow> world \<Rightarrow> string \<Rightarrow> PresenceCriteria \<Rightarrow> failure + 'p presencesJSON" where
  "listWithCriteria IsUserReadAccess ListPresences w ctxUsername criteria =
     (case listWithCriteria_criteria IsUserReadAccess w ctxUsername criteria of
        Inl e \<Rightarrow> Inl e
      | Inr c \<Rightarrow>
          (case ListPresences c of
             Inl err \<Rightarrow> Inl (AbortWithError StatusInternalServerError err)
           | Inr (count, presences) \<Rightarrow>
               Inr \<lparr> Count = count, Presences = presences \<rparr>))"





section \<open>Users controller\<close>

text \<open>The configuration that \<open>users.go\<close> reads through \<open>viper\<close>.\<close>

record config =
  username_from_email :: bool
  allowed_domains :: string
  exposed_scheme :: string
  exposed_host :: string
  exposed_port :: string
  exposed_path :: string

text \<open>\<open>fmt.Sprintf("%s://%s:%s%s", ...)\<close> over the four \<open>exposed_\<close> settings.\<close>

definition exposedURL :: "config \<Rightarrow> string" where
  "exposedURL cfg =
     exposed_scheme cfg @ ''://'' @ exposed_host cfg @ '':'' @ exposed_port cfg @ exposed_path cfg"

text \<open>\<open>models.UserCriteria\<close>, with the fields that \<open>users.go\<close> sets.\<close>

record UserCriteria =
  ucSkip :: int
  ucLimit :: int
  ucWithGroups :: bool
  ucIDUser :: string
  ucUsername :: string
  ucFullname :: string
  ucDateMinCreation :: string
  ucDateMaxCreation :: string

text \<open>\<open>(*UsersController).buildCriteria\<close>.\<close>

definition UsersController_buildCriteria :: "query \<Rightarrow> UserCriteria" where
  "UsersController_buildCriteria q =
     \<lparr> ucSkip = (case Atoi (DefaultQuery q ''skip'' ''0'') of None \<Rightarrow> 0 | Some n \<Rightarrow> n),
       ucLimit = (case Atoi (DefaultQuery q ''limit'' ''100'') of None \<Rightarrow> 100 | Some n \<Rightarrow> n),
       ucWithGroups =
         (case ParseBool (DefaultQuery q ''withGroups'' ''false'') of
            None \<Rightarrow> False | Some b \<Rightarrow> b),
       ucIDUser = Query q ''idUser'',
       ucUsername = Query q ''username'',
       ucFullname = Query q ''fullname'',
       ucDateMinCreation = Query q ''dateMinCreation'',
       ucDateMaxCreation = Query q ''dateMaxCreation'' \<rparr>"

text \<open>
  \<open>ctx.Bind(&obj)\<close> and the rest of a handler. \<open>bound\<close> tells whether Bind accepted
  the body, \<open>rest\<close> is what the handler writes and does after it. The handlers drop the
  result of Bind and go on, so the rest is the same either way; but when Bind refuses the
  body it has aborted the context and written the status 400, which is then the status of
  the answer whatever the handler writes after it. The answer is the status and the write
  of the handler.
\<close>

definition answered ::
  "bool \<Rightarrow> (failure + reply) \<times> world \<Rightarrow> (nat \<times> (failure + reply)) \<times> world" where
  "answered bound rest =
     ((if bound then statusOf (fst rest) else StatusBadRequest, fst rest), snd rest)"

text \<open>\<open>userCreateJSON\<close>, the body of a Create request.\<close>

record userCreateJSON =
  cjUsername :: string
  cjFullname :: string
  cjEmail :: string
  cjCallback :: string

text \<open>
  \<open>ctx.Bind(&userJSON)\<close> on a body, well-formed for the type, that decodes to \<open>j\<close>:
  the three fields tagged \<open>binding:"required"\<close> must not be left at their zero value.
\<close>

definition Bind_userCreateJSON :: "userCreateJSON \<Rightarrow> bool" where
  "Bind_userCreateJSON j = (cjUsername j \<noteq> [] \<and> cjFullname j \<noteq> [] \<and> cjEmail j \<noteq> [])"

text \<open>\<open>(*UsersController).computeUsername\<close>.\<close>

definition computeUsername :: "config \<Rightarrow> userCreateJSON \<Rightarrow> string" where
  "computeUsername cfg j =
     (if username_from_email cfg
      then (let i = Index (cjEmail j) CHR ''@''
            in if i > 0 then take (nat i) (cjEmail j) else cjUsername j)
      else cjUsername j)"

text \<open>\<open>(*UsersController).checkAllowedDomains\<close>; \<open>None\<close> is \<open>nil\<close>.\<close>

definition checkAllowedDomains :: "config \<Rightarrow> userCreateJSON \<Rightarrow> string option" where
  "checkAllowedDomains cfg j =
     (if allowed_domains cfg \<noteq> []
      then (if list_ex (\<lambda>domain. HasSuffix (cjEmail j) (''@'' @ domain))
                 (Split (allowed_domains cfg) CHR '','')
            then None
            else Some ''Your email domain is not allowed on this instance of Tat.'')
      else None)"

text \<open>The \<open>models.User\<close> that \<open>Create\<close> and \<open>Reset\<close> fill in, the other fields at
  their zero values.\<close>

definition newUser :: "string \<Rightarrow> string \<Rightarrow> string \<Rightarrow> User" where
  "newUser username fullname email =
     \<lparr> Username = username, Fullname = fullname, Email = email, IsSystem = False,
       CanWriteNotifications = False, ConvertedBy = [], TokenVerify = [], Password = [],
       FavoriteTopics = [], TopicsNotificationsDisabled = [] \<rparr>"

text \<open>\<open>(*UsersController).Create\<close> from the statement after \<open>ctx.Bind(&userJSON)\<close>
  on: what the handler writes and the world after it. The whole handler, with Bind, is
  \<open>Create_answer\<close> below.\<close>

definition Create :: "config \<Rightarrow> userCreateJSON \<Rightarrow> world \<Rightarrow> (failure + reply) \<times> world" where
  "Create cfg j w =
     (let userIn = newUser (computeUsername cfg j) (TrimSpace (cjFullname j))
                     (TrimSpace (cjEmail j));
          callback = TrimSpace (cjCallback j)
      in if length (Username userIn) < 3 \<or> length (Fullname userIn) < 3
              \<or> length (Email userIn) < 7
         then (Inl (AbortWithReturnError StatusInternalServerError
                      (''Invalid username ('' @ Username userIn @ '') or fullname (''
                         @ Fullname userIn @ '') or email ('' @ Email userIn @ '')'')), w)
         else
           (case checkAllowedDomains cfg j of
              Some err \<Rightarrow> (Inl (JSONError StatusForbidden err), w)
            | None \<Rightarrow>
                if IsEmailExists w (cjEmail j) \<or> IsUsernameExists w (cjUsername j)
                     \<or> IsFullnameExists w (cjFullname j)
                then (Inl (AbortWithReturnError StatusBadRequest
                             ''Please check your username, email or fullname. If you are already registered, please reset your password''), w)
                else
                  (case Insert w userIn of
                     Inl err \<Rightarrow> (Inl (AbortWithError StatusInternalServerError err), w)
                   | Inr (tokenVerify, w') \<Rightarrow>
                       (Inr (JSONInfo StatusCreated
                               (''please check your mail to validate your account.'' @
                                (if username_from_email cfg
                                 then '' Note that configuration of Tat forced your username to ''
                                        @ Username userIn
                                 else []))),
                        w'\<lparr>sent := sent w' @
                             [SendVerifyEmail (Username userIn) (Email userIn) tokenVerify callback,
                              WSUser ''create'' (Username userIn)]\<rparr>))))"

text \<open>\<open>(*UsersController).Create\<close> with its \<open>ctx.Bind(&userJSON)\<close>: the answer and
  the world after it.\<close>

definition Create_answer ::
  "config \<Rightarrow> userCreateJSON \<Rightarrow> world \<Rightarrow> (nat \<times> (failure + reply)) \<times> world" where
  "Create_answer cfg j w = answered (Bind_userCreateJSON j) (Create cfg j w)"

text \<open>\<open>userResetJSON\<close>, the body of a Reset request.\<close>

record userResetJSON =
  rjUsername :: string
  rjEmail :: string
  rjCallback :: string

text \<open>\<open>(*UsersController).Reset\<close>.\<close>

definition Reset :: "userResetJSON \<Rightarrow> world \<Rightarrow> (failure + reply) \<times> world" where
  "Reset j w =
     (let userIn = newUser (TrimSpace (rjUsername j)) [] (TrimSpace (rjEmail j));
          callback = TrimSpace (rjCallback j)
      in if length (Username userIn) < 3 \<or> length (Email userIn) < 7
         then (Inl (AbortWithReturnError StatusInternalServerError
                      (''Invalid username ('' @ Username userIn @ '') or email (''
                         @ Email userIn @ '')'')), w)
         else
           (case AskReset w userIn of
              Inl err \<Rightarrow> (Inl (AbortWithError StatusInternalServerError err), w)
            | Inr (tokenVerify, w') \<Rightarrow>
                (Inr (JSONInfo StatusCreated ''please check your mail to validate your account''),
                 w'\<lparr>sent := sent w' @
                      [SendAskResetEmail (Username userIn) (Email userIn) tokenVerify callback]\<rparr>)))"

text \<open>
  Modelled from the spec: \<open>PreCheckUser(ctx)\<close> is declared in another file of the
  package \<open>controllers\<close>. It resolves the user of the context, as \<open>preCheckUser\<close> of
  \<open>presences.go\<close> does, and aborts the request when there is none.
\<close>

definition PreCheckUser :: "world \<Rightarrow> string \<Rightarrow> failure + User" where
  "PreCheckUser w ctxUsername =
     (case FindByUsername w ctxUsername of
        None \<Rightarrow> Inl (AbortWithReturnError StatusInternalServerError ''Error while fetching user'')
      | Some user \<Rightarrow> Inr user)"

text \<open>
  \<open>(*UsersController).AddFavoriteTopic\<close>. \<open>topicIn\<close> is the result of
  \<open>GetParam(ctx, "topic")\<close>, \<open>None\<close> its error.
\<close>

definition AddFavoriteTopic ::
  "(Topic \<Rightarrow> User \<Rightarrow> bool) \<Rightarrow> world \<Rightarrow> string \<Rightarrow> string option
     \<Rightarrow> (failure + reply) \<times> world" where
  "AddFavoriteTopic IsUserReadAccess w ctxUsername topicParam =
     (case topicParam of
        None \<Rightarrow> (Inl (NoParam ''topic''), w)
      | Some topicIn \<Rightarrow>
          (case PreCheckUser w ctxUsername of
             Inl e \<Rightarrow> (Inl e, w)
           | Inr user \<Rightarrow>
               (case FindByTopic w topicIn True of
                  None \<Rightarrow>
                    (Inl (AbortWithReturnError StatusBadRequest
                            (''topic '' @ topicIn @ '' does not exist'')), w)
                | Some topic \<Rightarrow>
                    if \<not> IsUserReadAccess topic user
                    then (Inl (AbortWithReturnError StatusForbidden
                                 ''No Read Access to this topic''), w)
                    else
                      (case User_AddFavoriteTopic w user (Topic topic) of
                         Inl err \<Rightarrow>
                           (Inl (AbortWithReturnError StatusInternalServerError
                                   (''Error while add favorite topic to user:''
                                      @ Username user)), w)
                       | Inr w' \<Rightarrow>
                           (Inr (JSONInfo StatusCreated
                                   (''Topic '' @ Topic topic @ '' added to favorites'')),
                            w')))))"

text \<open>\<open>(*UsersController).RemoveFavoriteTopic\<close>.\<close>

definition RemoveFavoriteTopic ::
  "world \<Rightarrow> string \<Rightarrow> string option \<Rightarrow> (failure + reply) \<times> world" where
  "RemoveFavoriteTopic w ctxUsername topicParam =
     (case topicParam of
        None \<Rightarrow> (Inl (NoParam ''topic''), w)
      | Some topicIn \<Rightarrow>
          (case PreCheckUser w ctxUsername of
             Inl e \<Rightarrow> (Inl e, w)
           | Inr user \<Rightarrow>
               (case User_RemoveFavoriteTopic w user topicIn of
                  Inl err \<Rightarrow>
                    (Inl (JSONError StatusInternalServerError
                            (''Error while remove favorite topic '' @ topicIn @ '' to user:''
                               @ Username user @ '' err:'' @ err)), w)
                | Inr w' \<Rightarrow>
                    (Inr (JSONInfo StatusOK
                            (''Topic '' @ topicIn @ '' removed from favorites'')), w'))))"

text \<open>\<open>(*UsersController).EnableNotificationsTopic\<close>.\<close>

definition EnableNotificationsTopic ::
  "(Topic \<Rightarrow> User \<Rightarrow> bool) \<Rightarrow> world \<Rightarrow> string \<Rightarrow> string option
     \<Rightarrow> (failure + reply) \<times> world" where
  "EnableNotificationsTopic IsUserReadAccess w ctxUsername topicParam =
     (case topicParam of
        None \<Rightarrow> (Inl (NoParam ''topic''), w)
      | Some topicIn \<Rightarrow>
          (case PreCheckUser w ctxUsername of
             Inl e \<Rightarrow> (Inl e, w)
           | Inr user \<Rightarrow>
               (case FindByTopic w topicIn True of
                  None \<Rightarrow>
                    (Inl (AbortWithReturnError StatusBadRequest
                            (''topic '' @ topicIn @ '' does not exist'')), w)
                | Some topic \<Rightarrow>
                    if \<not> IsUserReadAccess topic user
                    then (Inl (AbortWithReturnError StatusForbidden
                                 ''No Read Access to this topic''), w)
                    else
                      (case User_EnableNotificationsTopic w user (Topic topic) of
                         Inl err \<Rightarrow>
                           (Inl (AbortWithReturnError StatusInternalServerError
                                   (''Error while enable notication on topic '' @ Topic topic
                                      @ '' to user:'' @ Username user)), w)
                       | Inr w' \<Rightarrow>
                           (Inr (JSONInfo StatusCreated
                                   (''Notications enabled on Topic '' @ Topic topic)),
                            w')))))"

text \<open>\<open>convertUserJSON\<close>, the body of a Convert request.\<close>

record convertUserJSON =
  cvUsername :: string
  cvCanWriteNotifications :: bool

text \<open>
  \<open>ctx.Bind(&convertJSON)\<close> on a body, well-formed for the type, that decodes to
  \<open>convertJSON\<close>: the two fields tagged \<open>binding:"required"\<close> must not be left at their zero value, which for
  the boolean \<open>canWriteNotifications\<close> is \<open>false\<close>.
\<close>

definition Bind_convertUserJSON :: "convertUserJSON \<Rightarrow> bool" where
  "Bind_convertUserJSON convertJSON =
     (cvUsername convertJSON \<noteq> [] \<and> cvCanWriteNotifications convertJSON)"

text \<open>\<open>(*UsersController).Convert\<close> from the statement after \<open>ctx.Bind(&convertJSON)\<close>
  on: what the handler writes and the world after it; \<open>ctxUsername\<close> is the acting
  admin. The whole handler, with Bind, is \<open>Convert_answer\<close> below.\<close>

definition Convert ::
  "config \<Rightarrow> world \<Rightarrow> string \<Rightarrow> convertUserJSON \<Rightarrow> (failure + reply) \<times> world" where
  "Convert cfg w ctxUsername convertJSON =
     (if \<not> HasPrefix (cvUsername convertJSON) ''tat.system''
      then (Inl (AbortWithReturnError StatusBadRequest
                   (''Username does not begin with tat.system ('' @ cvUsername convertJSON
                      @ ''), it's not possible to convert this user'')), w)
      else
        (case FindByUsername w (cvUsername convertJSON) of
           None \<Rightarrow>
             (Inl (AbortWithReturnError StatusBadRequest
                     (''user with username '' @ cvUsername convertJSON @ '' does not exist'')), w)
         | Some userToConvert \<Rightarrow>
             if IsSystem userToConvert
             then (Inl (AbortWithReturnError StatusBadRequest
                          (''user with username '' @ cvUsername convertJSON
                             @ '' is already a system user'')), w)
             else
               (case ConvertToSystem w userToConvert ctxUsername
                       (cvCanWriteNotifications convertJSON) of
                  Inl err \<Rightarrow>
                    (Inl (AbortWithReturnError StatusBadRequest
                            (''Convert '' @ cvUsername convertJSON
                               @ '' to system user failed'')), w)
                | Inr (newPassword, w') \<Rightarrow>
                    (Inr (JSONAccount StatusOK ''Verification successfull''
                            (Username userToConvert) newPassword (exposedURL cfg)), w'))))"

text \<open>\<open>(*UsersController).Convert\<close> with its \<open>ctx.Bind(&convertJSON)\<close>: the answer
  and the world after it.\<close>

definition Convert_answer ::
  "config \<Rightarrow> world \<Rightarrow> string \<Rightarrow> convertUserJSON
     \<Rightarrow> (nat \<times> (failure + reply)) \<times> world" where
  "Convert_answer cfg w ctxUsername convertJSON =
     answered (Bind_convertUserJSON convertJSON) (Convert cfg w ctxUsername convertJSON)"

text \<open>\<open>(*UsersController).ResetSystemUser\<close>, on the \<open>username\<close> of its body.\<close>

definition ResetSystemUser ::
  "config \<Rightarrow> world \<Rightarrow> string \<Rightarrow> (failure + reply) \<times> world" where
  "ResetSystemUser cfg w username =
     (if \<not> HasPrefix username ''tat.system''
      then (Inl (AbortWithReturnError StatusBadRequest
                   (''Username does not begin with tat.system ('' @ username
                      @ ''), it's not possible to reset password for this user'')), w)
      else
        (case FindByUsername w username of
           None \<Rightarrow>
             (Inl (AbortWithReturnError StatusBadRequest
                     (''user with username '' @ username @ '' does not exist'')), w)
         | Some systemUserToReset \<Rightarrow>
             if \<not> IsSystem systemUserToReset
             then (Inl (AbortWithReturnError StatusBadRequest
                          (''user with username '' @ username @ '' is not a system user'')), w)
             else
               (case ResetSystemUserPassword w systemUserToReset of
                  Inl err \<Rightarrow>
                    (Inl (AbortWithReturnError StatusBadRequest
                            (''Reset password for '' @ username @ '' (system user) failed'')), w)
                | Inr (newPassword, w') \<Rightarrow>
                    (Inr (JSONAccount StatusOK ''Reset password successfull''
                            (Username systemUserToReset) newPassword (exposedURL cfg)), w'))))"

text \<open>The array \<open>topicNames\<close> of \<open>checkTopics\<close>.\<close>

definition topicNames :: "string list" where
  "topicNames = [[], ''Tasks'', ''Bookmarks'', ''Notifications'']"

text \<open>The \<open>topicName\<close> that the loop of \<open>checkTopics\<close> computes for a short name.\<close>

definition privateTopicName :: "User \<Rightarrow> string \<Rightarrow> string" where
  "privateTopicName userToCheck shortName =
     (let topicName = ''/Private/'' @ Username userToCheck
      in if shortName \<noteq> [] then topicName @ ''/'' @ shortName else topicName)"

text \<open>
  One turn of the loop of \<open>checkTopics\<close>, on the text gathered so far and the world.
\<close>

definition checkTopic ::
  "bool \<Rightarrow> User \<Rightarrow> string \<times> world \<Rightarrow> string \<Rightarrow> string \<times> world" where
  "checkTopic fixTopics userToCheck acc shortName =
     (let topicsInfo = fst acc; w = snd acc;
          topicName = privateTopicName userToCheck shortName
      in case FindByTopic w topicName False of
           None \<Rightarrow>
             (let topicsInfo1 = topicsInfo @ '' '' @ topicName @ '' KO : not exist; ''
              in if fixTopics
                 then (case CreatePrivateTopic w userToCheck shortName of
                         Inl err \<Rightarrow>
                           (topicsInfo1 @ '' Error while creating '' @ topicName @ ''; '', w)
                       | Inr w' \<Rightarrow>
                           (topicsInfo1 @ '' '' @ topicName @ '' created; '', w'))
                 else (topicsInfo1, w))
         | Some topic \<Rightarrow> (topicsInfo @ '' '' @ topicName @ '' OK; '', w))"

text \<open>\<open>(*UsersController).checkTopics\<close>: the text it returns and the world after it.\<close>

definition checkTopics :: "bool \<Rightarrow> User \<Rightarrow> world \<Rightarrow> string \<times> world" where
  "checkTopics fixTopics userToCheck w =
     foldl (checkTopic fixTopics userToCheck) ([], w) topicNames"

text \<open>
  What the spec has the topic pass record for one short name, in the words of the code's
  messages: \<open>OK\<close> for a topic that exists; for a missing one the note
  \<open>KO : not exist\<close>, followed, when fixing, by \<open>created\<close> or by the failure of the
  creation.
\<close>

definition topicReport :: "bool \<Rightarrow> User \<Rightarrow> world \<Rightarrow> string \<Rightarrow> string" where
  "topicReport fixTopics userToCheck w shortName =
     (let topicName = privateTopicName userToCheck shortName
      in if FindByTopic w topicName False \<noteq> None then '' '' @ topicName @ '' OK; ''
         else if \<not> fixTopics then '' '' @ topicName @ '' KO : not exist; ''
         else if storeDown w
         then '' '' @ topicName @ '' KO : not exist; ''
                @ '' Error while creating '' @ topicName @ ''; ''
         else '' '' @ topicName @ '' KO : not exist; '' @ '' '' @ topicName @ '' created; '')"

text \<open>
  The store after a topic pass over the short names \<open>ss\<close>: when fixing, and the store
  works, the topics that were missing are added, in the order of \<open>ss\<close>.
\<close>

definition topicsAfter :: "bool \<Rightarrow> User \<Rightarrow> world \<Rightarrow> string list \<Rightarrow> world" where
  "topicsAfter fixTopics userToCheck w ss =
     (if fixTopics \<and> \<not> storeDown w
      then w\<lparr>topics := topics w @
                map (\<lambda>s. \<lparr> Topic = privateTopicName userToCheck s \<rparr>)
                  (filter (\<lambda>s. FindByTopic w (privateTopicName userToCheck s) False = None) ss)\<rparr>
      else w)"

section \<open>Example data\<close>

text \<open>A configuration without the username-from-email policy and without a list of
  allowed domains, and the same with the policy.\<close>

definition cfgPlain :: config where
  "cfgPlain =
     \<lparr> username_from_email = False, allowed_domains = [], exposed_scheme = ''https'',
       exposed_host = ''tat.example'', exposed_port = ''443'', exposed_path = ''/api'' \<rparr>"

definition cfgFromEmail :: config where
  "cfgFromEmail = cfgPlain\<lparr>username_from_email := True\<rparr>"

text \<open>A store with nothing in it but three secrets to issue.\<close>

definition emptyWorld :: world where
  "emptyWorld =
     \<lparr> users = [], topics = [], storeDown = False,
       secrets = [''secret1'', ''secret2'', ''secret3''], sent = [] \<rparr>"

text \<open>
  A store with three users (\<open>alice\<close>; \<open>tat.system.bot\<close>, not yet a system user;
  \<open>robot\<close>, a system user whose name lacks the reserved prefix) and four topics.
\<close>

definition aliceWorld :: world where
  "aliceWorld =
     \<lparr> users =
         [newUser ''alice'' ''Alice A'' ''alice@x.com'',
          newUser ''tat.system.bot'' ''Bot B'' ''bot@x.com'',
          (newUser ''robot'' ''Robot R'' ''robot@x.com'')\<lparr>IsSystem := True\<rparr>],
       topics =
         [\<lparr> Topic = ''/Private/alice'' \<rparr>,
          \<lparr> Topic = ''/Private/alice/DM/bob'' \<rparr>,
          \<lparr> Topic = ''/Private/alice/DM/bob/x'' \<rparr>,
          \<lparr> Topic = ''/Private/alice/DM/b,c'' \<rparr>],
       storeDown = False,
       secrets = [''secret1'', ''secret2''],
       sent = [] \<rparr>"



text \<open>A store where \<open>alice\<close> has disabled the notifications of one topic.\<close>

definition mutedWorld :: world where
  "mutedWorld =
     \<lparr> users =
         [(newUser ''alice'' ''Alice A'' ''alice@x.com'')
            \<lparr>TopicsNotificationsDisabled := [''/Private/alice/DM/bob'']\<rparr>],
       topics = [\<lparr> Topic = ''/Private/alice/DM/bob'' \<rparr>],
       storeDown = False,
       secrets = [],
       sent = [] \<rparr>"

text \<open>Read access for everybody, and for nobody.\<close>

definition allowAll :: "Topic \<Rightarrow> User \<Rightarrow> bool" where
  "allowAll topic user = True"

definition allowNone :: "Topic \<Rightarrow> User \<Rightarrow> bool" where
  "allowNone topic user = False"

text \<open>The criteria of a presence-list request on a topic, without query parameters.\<close>

definition criteriaOn :: "string \<Rightarrow> PresenceCriteria" where
  "criteriaOn topicIn = (PresencesController_buildCriteria Map.empty)\<lparr>pcTopic := topicIn\<rparr>"

section \<open>Facts about the string functions\<close>







lemma Atoi_100: "Atoi ''100'' = Some 100"
  by (simp add: Atoi_def isDigit_def)

lemma Atoi_abc: "Atoi ''abc'' = None"
  by (simp add: Atoi_def isDigit_def)

section \<open>The limit of a list request\<close>

text \<open>
  C10. In a presence-list request, a \<open>limit\<close> parameter that is present and is not an
  integer gives the limit 10, and no \<open>limit\<close> parameter gives 100; in a user-list
  request both give 100. So the fallback of the presence list is not its default.
\<close>

theorem buildCriteria_limit:
  "(q ''limit'' = Some v \<and> Atoi v = None \<longrightarrow>
      pcLimit (PresencesController_buildCriteria q) = 10 \<and>
      ucLimit (UsersController_buildCriteria q) = 100) \<and>
   (q ''limit'' = None \<longrightarrow>
      pcLimit (PresencesController_buildCriteria q) = 100 \<and>
      ucLimit (UsersController_buildCriteria q) = 100)"
  by (simp add: PresencesController_buildCriteria_def UsersController_buildCriteria_def
      DefaultQuery_def Atoi_100)

theorem buildCriteria_limit_witness:
  "[''limit'' \<mapsto> ''abc''] ''limit'' = Some ''abc'' \<and> Atoi ''abc'' = None \<and>
   pcLimit (PresencesController_buildCriteria [''limit'' \<mapsto> ''abc'']) = 10 \<and>
   ucLimit (UsersController_buildCriteria [''limit'' \<mapsto> ''abc'']) = 100 \<and>
   pcLimit (PresencesController_buildCriteria Map.empty) = 100"
  using buildCriteria_limit [of "[''limit'' \<mapsto> ''abc'']" "''abc''"]
    buildCriteria_limit [of Map.empty "''abc''"]
  by (simp add: Atoi_abc)

section \<open>Presences of a DM topic\<close>





lemma aliceWorld_alice:
  "FindByUsername aliceWorld ''alice'' = Some (newUser ''alice'' ''Alice A'' ''alice@x.com'')"
  by (simp add: FindByUsername_def aliceWorld_def newUser_def)





text \<open>
  C2. A presence-list request whose normalized topic path starts with
  \<open>/Private/u/DM/\<close> and does not have exactly five segments never gives a result list:
  the handler ends with a failure whatever the store holds, and once the user is found,
  the topic exists and the user may read it, the failure is the abort with status 500 and
  the message \<open>Wrong topic name for DM:\<close> followed by the path.
\<close>

theorem dm_wrong_segments:
  assumes pre: "HasPrefix (normalizeTopic (pcTopic criteria)) (''/Private/'' @ u @ ''/DM/'')"
    and notfive: "length (Split (normalizeTopic (pcTopic criteria)) CHR ''/'') \<noteq> 5"
  shows "(\<exists>e. listWithCriteria IsUserReadAccess ListPresences w u criteria = Inl e) \<and>
         (\<forall>user topic. FindByUsername w u = Some user \<longrightarrow>
            FindByTopic w (pcTopic criteria) True = Some topic \<longrightarrow>
            IsUserReadAccess topic user \<longrightarrow>
            listWithCriteria IsUserReadAccess ListPresences w u criteria =
              Inl (AbortWithError StatusInternalServerError
                     (''Wrong topic name for DM:'' @ normalizeTopic (pcTopic criteria))))"
  using pre notfive
  unfolding listWithCriteria_def listWithCriteria_criteria_def preCheckUser_def
  by (auto simp: Let_def split: option.splits sum.splits)

theorem dm_wrong_segments_witness:
  "HasPrefix (normalizeTopic (pcTopic (criteriaOn ''Private/alice/DM/bob/x'')))
     (''/Private/'' @ ''alice'' @ ''/DM/'') \<and>
   length (Split (normalizeTopic (pcTopic (criteriaOn ''Private/alice/DM/bob/x''))) CHR ''/'') \<noteq> 5 \<and>
   listWithCriteria allowAll (\<lambda>c. Inr (0, [] :: string list)) aliceWorld ''alice''
       (criteriaOn ''Private/alice/DM/bob/x'')
     = Inl (AbortWithError StatusInternalServerError
              ''Wrong topic name for DM:/Private/alice/DM/bob/x'')"
proof -
  let ?c = "criteriaOn ''Private/alice/DM/bob/x''"
  have n: "normalizeTopic (pcTopic ?c) = ''/Private/alice/DM/bob/x''"
    by (simp add: criteriaOn_def normalizeTopic_def)
  have h1: "HasPrefix (normalizeTopic (pcTopic ?c)) (''/Private/'' @ ''alice'' @ ''/DM/'')"
    by (simp add: n HasPrefix_def)
  have h2: "length (Split (normalizeTopic (pcTopic ?c)) CHR ''/'') \<noteq> 5"
    by (simp add: n)
  have h3: "FindByTopic aliceWorld (pcTopic ?c) True = Some \<lparr> Topic = ''/Private/alice/DM/bob/x'' \<rparr>"
    by (simp add: criteriaOn_def FindByTopic_def topicKey_def aliceWorld_def)
  have h4: "allowAll \<lparr> Topic = ''/Private/alice/DM/bob/x'' \<rparr> (newUser ''alice'' ''Alice A'' ''alice@x.com'')"
    by (simp add: allowAll_def)
  from dm_wrong_segments [where IsUserReadAccess = allowAll and w = aliceWorld
      and u = "''alice''" and criteria = ?c
      and ListPresences = "\<lambda>c. Inr (0, [] :: string list)", OF h1 h2]
    aliceWorld_alice h3 h4
  have "listWithCriteria allowAll (\<lambda>c. Inr (0, [] :: string list)) aliceWorld ''alice'' ?c
     = Inl (AbortWithError StatusInternalServerError
              (''Wrong topic name for DM:'' @ normalizeTopic (pcTopic ?c)))"
    by blast
  with h1 h2 show ?thesis by (simp add: n)
qed

section \<open>Facts about the store\<close>

lemma find_update:
  assumes "\<And>u. Username (f u) = Username u"
  shows "find (\<lambda>u. Username u = name) (map (\<lambda>u. if Username u = name then f u else u) xs)
           = map_option f (find (\<lambda>u. Username u = name) xs)"
  using assms by (induction xs) auto

lemma FindByUsername_updateUser:
  assumes "\<And>u. Username (f u) = Username u"
  shows "FindByUsername (updateUser name f w) name = map_option f (FindByUsername w name)"
  using find_update [of f name "users w", OF assms]
  by (simp add: FindByUsername_def updateUser_def)

lemma FindByUsername_name: "FindByUsername w name = Some u \<Longrightarrow> Username u = name"
  by (auto simp: FindByUsername_def find_Some_iff)

lemma FindByUsername_secrets [simp]:
  "FindByUsername (w\<lparr>secrets := s\<rparr>) name = FindByUsername w name"
  by (simp add: FindByUsername_def)

lemma FindByTopic_key: "FindByTopic w path flag = Some t \<Longrightarrow> Topic t = topicKey path"
  by (auto simp: FindByTopic_def find_Some_iff)

lemma topicKey_idem [simp]: "topicKey (topicKey path) = topicKey path"
  by (simp add: topicKey_def)

section \<open>System users\<close>

text \<open>
  What \<open>Convert\<close> writes after its Bind: it rejects, with status 400 and the store as
  it was, every target name that does not start with \<open>tat.system\<close>. For a name with
  the prefix, of a user who exists and is not a system user, in a store that works and has
  a secret to issue, it writes 200 with the newly issued password, the user is a system
  user afterwards, with that password and the acting admin as converter, and a later
  \<open>Convert\<close> on the same name is rejected with status 400 as "already a system user".
\<close>

lemma Convert_system:
  "(\<not> HasPrefix (cvUsername j) ''tat.system'' \<longrightarrow>
      Convert cfg w admin j =
        (Inl (AbortWithReturnError StatusBadRequest
                (''Username does not begin with tat.system ('' @ cvUsername j
                   @ ''), it's not possible to convert this user'')), w)) \<and>
   (HasPrefix (cvUsername j) ''tat.system'' \<and> FindByUsername w (cvUsername j) = Some user \<and>
    \<not> IsSystem user \<and> \<not> storeDown w \<and> secrets w = password # rest \<longrightarrow>
      fst (Convert cfg w admin j) =
        Inr (JSONAccount StatusOK ''Verification successfull'' (cvUsername j) password
               (exposedURL cfg)) \<and>
      secrets (snd (Convert cfg w admin j)) = rest \<and>
      FindByUsername (snd (Convert cfg w admin j)) (cvUsername j) =
        Some (user\<lparr>IsSystem := True, CanWriteNotifications := cvCanWriteNotifications j,
                    ConvertedBy := admin, Password := password\<rparr>) \<and>
      Convert cfg (snd (Convert cfg w admin j)) admin j =
        (Inl (AbortWithReturnError StatusBadRequest
                (''user with username '' @ cvUsername j @ '' is already a system user'')),
         snd (Convert cfg w admin j)))"
proof (intro conjI impI)
  assume "\<not> HasPrefix (cvUsername j) ''tat.system''"
  then show "Convert cfg w admin j =
        (Inl (AbortWithReturnError StatusBadRequest
                (''Username does not begin with tat.system ('' @ cvUsername j
                   @ ''), it's not possible to convert this user'')), w)"
    by (simp add: Convert_def)
next
  assume a: "HasPrefix (cvUsername j) ''tat.system'' \<and> FindByUsername w (cvUsername j) = Some user \<and>
    \<not> IsSystem user \<and> \<not> storeDown w \<and> secrets w = password # rest"
  define f :: "User \<Rightarrow> User" where "f = (\<lambda>u. u\<lparr>IsSystem := True, CanWriteNotifications := cvCanWriteNotifications j,
                    ConvertedBy := admin, Password := password\<rparr>)"
  define w' where "w' = updateUser (cvUsername j) f (w\<lparr>secrets := rest\<rparr>)"
  have name: "Username user = cvUsername j"
    using a FindByUsername_name by blast
  have c: "ConvertToSystem w user admin (cvCanWriteNotifications j) = Inr (password, w')"
    using a name by (simp add: ConvertToSystem_def issue_def w'_def f_def)
  have r: "Convert cfg w admin j =
      (Inr (JSONAccount StatusOK ''Verification successfull'' (cvUsername j) password
              (exposedURL cfg)), w')"
    using a c name by (simp add: Convert_def)
  have u: "FindByUsername w' (cvUsername j) = Some (f user)"
    unfolding w'_def using a FindByUsername_updateUser [of f "cvUsername j" "w\<lparr>secrets := rest\<rparr>"]
    by (simp add: f_def)
  have s: "secrets w' = rest"
    by (simp add: w'_def updateUser_def)
  have again: "Convert cfg w' admin j =
        (Inl (AbortWithReturnError StatusBadRequest
                (''user with username '' @ cvUsername j @ '' is already a system user'')), w')"
    using a u by (simp add: Convert_def f_def)
  show "fst (Convert cfg w admin j) =
        Inr (JSONAccount StatusOK ''Verification successfull'' (cvUsername j) password
               (exposedURL cfg))"
    by (simp add: r)
  show "secrets (snd (Convert cfg w admin j)) = rest"
    by (simp add: r s)
  show "FindByUsername (snd (Convert cfg w admin j)) (cvUsername j) =
        Some (user\<lparr>IsSystem := True, CanWriteNotifications := cvCanWriteNotifications j,
                    ConvertedBy := admin, Password := password\<rparr>)"
    using u by (simp add: r f_def)
  show "Convert cfg (snd (Convert cfg w admin j)) admin j =
        (Inl (AbortWithReturnError StatusBadRequest
                (''user with username '' @ cvUsername j @ '' is already a system user'')),
         snd (Convert cfg w admin j))"
    using again by (simp add: r)
qed

lemma aliceWorld_bot:
  "FindByUsername aliceWorld ''tat.system.bot''
     = Some (newUser ''tat.system.bot'' ''Bot B'' ''bot@x.com'')"
  by (simp add: FindByUsername_def aliceWorld_def newUser_def)

lemma aliceWorld_robot:
  "FindByUsername aliceWorld ''robot''
     = Some ((newUser ''robot'' ''Robot R'' ''robot@x.com'')\<lparr>IsSystem := True\<rparr>)"
  by (simp add: FindByUsername_def aliceWorld_def newUser_def)

text \<open>
  The answer of \<open>Convert\<close> with its Bind. Without the prefix it is 400. With the prefix,
  for a user who exists and is not a system user, in a store that works and has a secret
  to issue, the conversion is done and the body carries the new password whatever the
  body of the request says of \<open>canWriteNotifications\<close>, but the status of the answer is
  200 only when it is \<open>true\<close>.
\<close>

lemma Convert_answer_prefix:
  assumes "\<not> HasPrefix (cvUsername j) ''tat.system''"
  shows "Convert_answer cfg w admin j =
     ((StatusBadRequest,
       Inl (AbortWithReturnError StatusBadRequest
              (''Username does not begin with tat.system ('' @ cvUsername j
                 @ ''), it's not possible to convert this user''))), w)"
  using assms Convert_system [of j cfg w admin]
  by (simp add: Convert_answer_def answered_def)

lemma Convert_answer_system:
  assumes pre: "HasPrefix (cvUsername j) ''tat.system''"
    and user: "FindByUsername w (cvUsername j) = Some user"
    and fresh: "\<not> IsSystem user"
    and up: "\<not> storeDown w" and sec: "secrets w = password # rest"
  shows "fst (Convert_answer cfg w admin j) =
           (if cvCanWriteNotifications j then StatusOK else StatusBadRequest,
            Inr (JSONAccount StatusOK ''Verification successfull'' (cvUsername j) password
                   (exposedURL cfg)))"
    and "FindByUsername (snd (Convert_answer cfg w admin j)) (cvUsername j) =
           Some (user\<lparr>IsSystem := True, CanWriteNotifications := cvCanWriteNotifications j,
                       ConvertedBy := admin, Password := password\<rparr>)"
    and "Convert_answer cfg (snd (Convert_answer cfg w admin j)) admin j =
           ((StatusBadRequest,
             Inl (AbortWithReturnError StatusBadRequest
                    (''user with username '' @ cvUsername j @ '' is already a system user''))),
            snd (Convert_answer cfg w admin j))"
proof -
  have name: "cvUsername j \<noteq> []"
    using pre by (auto simp: HasPrefix_def)
  from Convert_system [of j cfg w admin user password rest] pre user fresh up sec
  have a: "fst (Convert cfg w admin j) =
        Inr (JSONAccount StatusOK ''Verification successfull'' (cvUsername j) password
               (exposedURL cfg))"
    and b: "FindByUsername (snd (Convert cfg w admin j)) (cvUsername j) =
        Some (user\<lparr>IsSystem := True, CanWriteNotifications := cvCanWriteNotifications j,
                    ConvertedBy := admin, Password := password\<rparr>)"
    and c: "Convert cfg (snd (Convert cfg w admin j)) admin j =
        (Inl (AbortWithReturnError StatusBadRequest
                (''user with username '' @ cvUsername j @ '' is already a system user'')),
         snd (Convert cfg w admin j))"
    by blast+
  show "fst (Convert_answer cfg w admin j) =
           (if cvCanWriteNotifications j then StatusOK else StatusBadRequest,
            Inr (JSONAccount StatusOK ''Verification successfull'' (cvUsername j) password
                   (exposedURL cfg)))"
    by (simp add: Convert_answer_def answered_def Bind_convertUserJSON_def name a)
  show "FindByUsername (snd (Convert_answer cfg w admin j)) (cvUsername j) =
           Some (user\<lparr>IsSystem := True, CanWriteNotifications := cvCanWriteNotifications j,
                       ConvertedBy := admin, Password := password\<rparr>)"
    by (simp add: Convert_answer_def answered_def b)
  show "Convert_answer cfg (snd (Convert_answer cfg w admin j)) admin j =
           ((StatusBadRequest,
             Inl (AbortWithReturnError StatusBadRequest
                    (''user with username '' @ cvUsername j @ '' is already a system user''))),
            snd (Convert_answer cfg w admin j))"
    by (simp add: Convert_answer_def answered_def c)
qed

text \<open>
  C4, at the failing input. The admin converts \<open>tat.system.bot\<close>, who exists and is not
  a system user, with \<open>canWriteNotifications\<close> \<open>false\<close>. Bind refuses the body, since
  the required boolean is at its zero value; the handler goes on: the user becomes a
  system user and the new password is in the body, but the status of the answer is 400.
  With \<open>true\<close> the same request is answered 200.
\<close>

theorem Convert_required_false:
  "HasPrefix ''tat.system.bot'' ''tat.system'' \<and>
   FindByUsername aliceWorld ''tat.system.bot''
     = Some (newUser ''tat.system.bot'' ''Bot B'' ''bot@x.com'') \<and>
   \<not> IsSystem (newUser ''tat.system.bot'' ''Bot B'' ''bot@x.com'') \<and>
   \<not> Bind_convertUserJSON \<lparr> cvUsername = ''tat.system.bot'', cvCanWriteNotifications = False \<rparr> \<and>
   fst (Convert_answer cfgPlain aliceWorld ''admin''
          \<lparr> cvUsername = ''tat.system.bot'', cvCanWriteNotifications = False \<rparr>)
     = (StatusBadRequest,
        Inr (JSONAccount StatusOK ''Verification successfull'' ''tat.system.bot'' ''secret1''
               ''https://tat.example:443/api'')) \<and>
   FindByUsername
       (snd (Convert_answer cfgPlain aliceWorld ''admin''
               \<lparr> cvUsername = ''tat.system.bot'', cvCanWriteNotifications = False \<rparr>))
       ''tat.system.bot''
     = Some ((newUser ''tat.system.bot'' ''Bot B'' ''bot@x.com'')
               \<lparr>IsSystem := True, CanWriteNotifications := False, ConvertedBy := ''admin'',
                Password := ''secret1''\<rparr>) \<and>
   fst (Convert_answer cfgPlain aliceWorld ''admin''
          \<lparr> cvUsername = ''tat.system.bot'', cvCanWriteNotifications = True \<rparr>)
     = (StatusOK,
        Inr (JSONAccount StatusOK ''Verification successfull'' ''tat.system.bot'' ''secret1''
               ''https://tat.example:443/api''))"
proof -
  let ?jf = "\<lparr> cvUsername = ''tat.system.bot'', cvCanWriteNotifications = False \<rparr>"
  let ?jt = "\<lparr> cvUsername = ''tat.system.bot'', cvCanWriteNotifications = True \<rparr>"
  let ?bot = "newUser ''tat.system.bot'' ''Bot B'' ''bot@x.com''"
  have h1: "HasPrefix (cvUsername ?jf) ''tat.system''" "HasPrefix (cvUsername ?jt) ''tat.system''"
    by (simp_all add: HasPrefix_def)
  have h2: "FindByUsername aliceWorld (cvUsername ?jf) = Some ?bot"
    "FindByUsername aliceWorld (cvUsername ?jt) = Some ?bot"
    by (simp_all add: aliceWorld_bot)
  have h3: "\<not> IsSystem ?bot"
    by (simp add: newUser_def)
  have h4: "\<not> storeDown aliceWorld" and h5: "secrets aliceWorld = ''secret1'' # [''secret2'']"
    by (simp_all add: aliceWorld_def)
  have url: "exposedURL cfgPlain = ''https://tat.example:443/api''"
    by (simp add: exposedURL_def cfgPlain_def)
  have nb: "\<not> Bind_convertUserJSON ?jf"
    by (simp add: Bind_convertUserJSON_def)
  have f: "fst (Convert_answer cfgPlain aliceWorld ''admin'' ?jf)
     = (StatusBadRequest,
        Inr (JSONAccount StatusOK ''Verification successfull'' ''tat.system.bot'' ''secret1''
               ''https://tat.example:443/api''))"
    using Convert_answer_system(1) [OF h1(1) h2(1) h3 h4 h5, of cfgPlain "''admin''"]
    by (simp add: url)
  have g: "FindByUsername (snd (Convert_answer cfgPlain aliceWorld ''admin'' ?jf))
             ''tat.system.bot''
     = Some (?bot\<lparr>IsSystem := True, CanWriteNotifications := False, ConvertedBy := ''admin'',
                   Password := ''secret1''\<rparr>)"
    using Convert_answer_system(2) [OF h1(1) h2(1) h3 h4 h5, of cfgPlain "''admin''"]
    by simp
  have t: "fst (Convert_answer cfgPlain aliceWorld ''admin'' ?jt)
     = (StatusOK,
        Inr (JSONAccount StatusOK ''Verification successfull'' ''tat.system.bot'' ''secret1''
               ''https://tat.example:443/api''))"
    using Convert_answer_system(1) [OF h1(2) h2(2) h3 h4 h5, of cfgPlain "''admin''"]
    by (simp add: url)
  from h1 h3 nb f g t aliceWorld_bot show ?thesis
    by simp
qed

text \<open>
  C9. \<open>ResetSystemUser\<close> rejects, with status 400 and the store as it was, every
  target name that does not start with \<open>tat.system\<close>, whatever the store holds under
  that name; with the prefix it rejects a name that the store does not know and a user
  who is not a system user. So whenever it answers with a new password, the name has the
  prefix and names a system user: a system user without the prefix never gets one.
\<close>

theorem ResetSystemUser_prefix:
  "(\<not> HasPrefix username ''tat.system'' \<longrightarrow>
      ResetSystemUser cfg w username =
        (Inl (AbortWithReturnError StatusBadRequest
                (''Username does not begin with tat.system ('' @ username
                   @ ''), it's not possible to reset password for this user'')), w)) \<and>
   (HasPrefix username ''tat.system'' \<and> FindByUsername w username = None \<longrightarrow>
      ResetSystemUser cfg w username =
        (Inl (AbortWithReturnError StatusBadRequest
                (''user with username '' @ username @ '' does not exist'')), w)) \<and>
   (HasPrefix username ''tat.system'' \<and> FindByUsername w username = Some user \<and>
    \<not> IsSystem user \<longrightarrow>
      ResetSystemUser cfg w username =
        (Inl (AbortWithReturnError StatusBadRequest
                (''user with username '' @ username @ '' is not a system user'')), w)) \<and>
   (\<forall>r. fst (ResetSystemUser cfg w username) = Inr r \<longrightarrow>
      HasPrefix username ''tat.system'' \<and>
      (\<exists>u. FindByUsername w username = Some u \<and> IsSystem u))"
  by (auto simp: ResetSystemUser_def split: option.splits sum.splits if_splits)

theorem ResetSystemUser_prefix_witness:
  "\<not> HasPrefix ''robot'' ''tat.system'' \<and>
   FindByUsername aliceWorld ''robot''
     = Some ((newUser ''robot'' ''Robot R'' ''robot@x.com'')\<lparr>IsSystem := True\<rparr>) \<and>
   IsSystem ((newUser ''robot'' ''Robot R'' ''robot@x.com'')\<lparr>IsSystem := True\<rparr>) \<and>
   ResetSystemUser cfgPlain aliceWorld ''robot'' =
     (Inl (AbortWithReturnError StatusBadRequest
        ''Username does not begin with tat.system (robot), it's not possible to reset password for this user''),
      aliceWorld) \<and>
   HasPrefix ''tat.system.bot'' ''tat.system'' \<and>
   ResetSystemUser cfgPlain aliceWorld ''tat.system.bot'' =
     (Inl (AbortWithReturnError StatusBadRequest
        ''user with username tat.system.bot is not a system user''), aliceWorld)"
proof -
  have h1: "\<not> HasPrefix ''robot'' ''tat.system''"
    by (simp add: HasPrefix_def)
  have h2: "HasPrefix ''tat.system.bot'' ''tat.system''"
    by (simp add: HasPrefix_def)
  have h3: "\<not> IsSystem (newUser ''tat.system.bot'' ''Bot B'' ''bot@x.com'')"
    by (simp add: newUser_def)
  from ResetSystemUser_prefix [of "''robot''" cfgPlain aliceWorld] h1
  have a: "ResetSystemUser cfgPlain aliceWorld ''robot'' =
     (Inl (AbortWithReturnError StatusBadRequest
        ''Username does not begin with tat.system (robot), it's not possible to reset password for this user''),
      aliceWorld)"
    by simp
  from ResetSystemUser_prefix [of "''tat.system.bot''" cfgPlain aliceWorld
      "newUser ''tat.system.bot'' ''Bot B'' ''bot@x.com''"] h2 h3 aliceWorld_bot
  have b: "ResetSystemUser cfgPlain aliceWorld ''tat.system.bot'' =
     (Inl (AbortWithReturnError StatusBadRequest
        ''user with username tat.system.bot is not a system user''), aliceWorld)"
    by simp
  from h1 h2 a b aliceWorld_robot show ?thesis by simp
qed

section \<open>Favorite topics and notifications\<close>

text \<open>
  C6. \<open>AddFavoriteTopic\<close> and \<open>EnableNotificationsTopic\<close> answer with success only
  when the user and the topic exist and the user may read the topic; after the first the
  topic is among the user's favorites, after the second it is not among the topics whose
  notifications the user has disabled. When the user may not read the topic both are
  rejected with status 403 (Forbidden) and the store is as it was. When the user may read
  it and the store works, both succeed with status 201, and the store afterwards is the
  one before with the topic added to the favorites of the user, respectively taken out of
  the user's disabled notifications. \<open>RemoveFavoriteTopic\<close> takes no access predicate
  and looks no topic up: for a user who exists, in a store that works, it succeeds with
  status 200 on every path, and the path is not among the user's favorites afterwards.
\<close>

theorem favorite_topic_access:
  "(\<forall>r. fst (AddFavoriteTopic IsUserReadAccess w u (Some t)) = Inr r \<longrightarrow>
      (\<exists>user topic user'.
         FindByUsername w u = Some user \<and> FindByTopic w t True = Some topic \<and>
         IsUserReadAccess topic user \<and>
         FindByUsername (snd (AddFavoriteTopic IsUserReadAccess w u (Some t))) u = Some user' \<and>
         Topic topic \<in> set (FavoriteTopics user'))) \<and>
   (\<forall>r. fst (EnableNotificationsTopic IsUserReadAccess w u (Some t)) = Inr r \<longrightarrow>
      (\<exists>user topic user'.
         FindByUsername w u = Some user \<and> FindByTopic w t True = Some topic \<and>
         IsUserReadAccess topic user \<and>
         FindByUsername (snd (EnableNotificationsTopic IsUserReadAccess w u (Some t))) u
           = Some user' \<and>
         Topic topic \<notin> set (TopicsNotificationsDisabled user'))) \<and>
   (\<forall>user topic.
      FindByUsername w u = Some user \<and> FindByTopic w t True = Some topic \<and>
      \<not> IsUserReadAccess topic user \<longrightarrow>
        AddFavoriteTopic IsUserReadAccess w u (Some t) =
          (Inl (AbortWithReturnError StatusForbidden ''No Read Access to this topic''), w) \<and>
        EnableNotificationsTopic IsUserReadAccess w u (Some t) =
          (Inl (AbortWithReturnError StatusForbidden ''No Read Access to this topic''), w)) \<and>
   (\<forall>user topic.
      FindByUsername w u = Some user \<and> FindByTopic w t True = Some topic \<and>
      IsUserReadAccess topic user \<and> \<not> storeDown w \<longrightarrow>
        AddFavoriteTopic IsUserReadAccess w u (Some t) =
          (Inr (JSONInfo StatusCreated (''Topic '' @ Topic topic @ '' added to favorites'')),
           updateUser u
             (\<lambda>x. x\<lparr>FavoriteTopics := List.insert (Topic topic) (FavoriteTopics x)\<rparr>) w) \<and>
        FindByUsername (snd (AddFavoriteTopic IsUserReadAccess w u (Some t))) u =
          Some (user\<lparr>FavoriteTopics := List.insert (Topic topic) (FavoriteTopics user)\<rparr>) \<and>
        EnableNotificationsTopic IsUserReadAccess w u (Some t) =
          (Inr (JSONInfo StatusCreated (''Notications enabled on Topic '' @ Topic topic)),
           updateUser u
             (\<lambda>x. x\<lparr>TopicsNotificationsDisabled :=
                        removeAll (Topic topic) (TopicsNotificationsDisabled x)\<rparr>) w) \<and>
        FindByUsername (snd (EnableNotificationsTopic IsUserReadAccess w u (Some t))) u =
          Some (user\<lparr>TopicsNotificationsDisabled :=
                        removeAll (Topic topic) (TopicsNotificationsDisabled user)\<rparr>)) \<and>
   (\<forall>user.
      FindByUsername w u = Some user \<and> \<not> storeDown w \<longrightarrow>
        fst (RemoveFavoriteTopic w u (Some t)) =
          Inr (JSONInfo StatusOK (''Topic '' @ t @ '' removed from favorites'')) \<and>
        FindByUsername (snd (RemoveFavoriteTopic w u (Some t))) u =
          Some (user\<lparr>FavoriteTopics := removeAll (topicKey t) (FavoriteTopics user)\<rparr>))"
proof -
  have success: "AddFavoriteTopic IsUserReadAccess w u (Some t) =
          (Inr (JSONInfo StatusCreated (''Topic '' @ Topic topic @ '' added to favorites'')),
           updateUser u
             (\<lambda>x. x\<lparr>FavoriteTopics := List.insert (Topic topic) (FavoriteTopics x)\<rparr>) w) \<and>
        FindByUsername (snd (AddFavoriteTopic IsUserReadAccess w u (Some t))) u =
          Some (user\<lparr>FavoriteTopics := List.insert (Topic topic) (FavoriteTopics user)\<rparr>) \<and>
        EnableNotificationsTopic IsUserReadAccess w u (Some t) =
          (Inr (JSONInfo StatusCreated (''Notications enabled on Topic '' @ Topic topic)),
           updateUser u
             (\<lambda>x. x\<lparr>TopicsNotificationsDisabled :=
                        removeAll (Topic topic) (TopicsNotificationsDisabled x)\<rparr>) w) \<and>
        FindByUsername (snd (EnableNotificationsTopic IsUserReadAccess w u (Some t))) u =
          Some (user\<lparr>TopicsNotificationsDisabled :=
                        removeAll (Topic topic) (TopicsNotificationsDisabled user)\<rparr>)"
    if user: "FindByUsername w u = Some user" and topic: "FindByTopic w t True = Some topic"
      and acc: "IsUserReadAccess topic user" and up: "\<not> storeDown w"
    for user topic
  proof -
    define f :: "User \<Rightarrow> User" where
      "f = (\<lambda>x. x\<lparr>FavoriteTopics := List.insert (Topic topic) (FavoriteTopics x)\<rparr>)"
    define g :: "User \<Rightarrow> User" where
      "g = (\<lambda>x. x\<lparr>TopicsNotificationsDisabled :=
                      removeAll (Topic topic) (TopicsNotificationsDisabled x)\<rparr>)"
    have name: "Username user = u"
      using user by (rule FindByUsername_name)
    have key: "topicKey (Topic topic) = Topic topic"
      using FindByTopic_key [OF topic] by simp
    have a: "AddFavoriteTopic IsUserReadAccess w u (Some t) =
          (Inr (JSONInfo StatusCreated (''Topic '' @ Topic topic @ '' added to favorites'')),
           updateUser u f w)"
      using user topic acc up name key
      by (simp add: AddFavoriteTopic_def PreCheckUser_def User_AddFavoriteTopic_def f_def)
    have e: "EnableNotificationsTopic IsUserReadAccess w u (Some t) =
          (Inr (JSONInfo StatusCreated (''Notications enabled on Topic '' @ Topic topic)),
           updateUser u g w)"
      using user topic acc up name key
      by (simp add: EnableNotificationsTopic_def PreCheckUser_def
          User_EnableNotificationsTopic_def g_def)
    have fa: "FindByUsername (updateUser u f w) u = Some (f user)"
      using FindByUsername_updateUser [of f u w] user by (simp add: f_def)
    have fe: "FindByUsername (updateUser u g w) u = Some (g user)"
      using FindByUsername_updateUser [of g u w] user by (simp add: g_def)
    from a e fa fe show ?thesis
      by (simp add: f_def g_def)
  qed
  show ?thesis
  proof (intro conjI allI impI)
    fix r
    assume a: "fst (AddFavoriteTopic IsUserReadAccess w u (Some t)) = Inr r"
    then obtain user where user: "FindByUsername w u = Some user"
      by (auto simp: AddFavoriteTopic_def PreCheckUser_def split: option.splits)
    with a obtain topic where topic: "FindByTopic w t True = Some topic"
      by (auto simp: AddFavoriteTopic_def PreCheckUser_def split: option.splits)
    with a user have acc: "IsUserReadAccess topic user"
      by (auto simp: AddFavoriteTopic_def PreCheckUser_def split: if_splits)
    with a user topic have up: "\<not> storeDown w"
      by (auto simp: AddFavoriteTopic_def PreCheckUser_def User_AddFavoriteTopic_def
          split: if_splits)
    from success [OF user topic acc up]
    have "FindByUsername (snd (AddFavoriteTopic IsUserReadAccess w u (Some t))) u =
          Some (user\<lparr>FavoriteTopics := List.insert (Topic topic) (FavoriteTopics user)\<rparr>)"
      by blast
    moreover have "Topic topic
        \<in> set (FavoriteTopics
                 (user\<lparr>FavoriteTopics := List.insert (Topic topic) (FavoriteTopics user)\<rparr>))"
      by simp
    ultimately show "\<exists>user topic user'.
         FindByUsername w u = Some user \<and> FindByTopic w t True = Some topic \<and>
         IsUserReadAccess topic user \<and>
         FindByUsername (snd (AddFavoriteTopic IsUserReadAccess w u (Some t))) u = Some user' \<and>
         Topic topic \<in> set (FavoriteTopics user')"
      using user topic acc by blast
  next
    fix r
    assume a: "fst (EnableNotificationsTopic IsUserReadAccess w u (Some t)) = Inr r"
    then obtain user where user: "FindByUsername w u = Some user"
      by (auto simp: EnableNotificationsTopic_def PreCheckUser_def split: option.splits)
    with a obtain topic where topic: "FindByTopic w t True = Some topic"
      by (auto simp: EnableNotificationsTopic_def PreCheckUser_def split: option.splits)
    with a user have acc: "IsUserReadAccess topic user"
      by (auto simp: EnableNotificationsTopic_def PreCheckUser_def split: if_splits)
    with a user topic have up: "\<not> storeDown w"
      by (auto simp: EnableNotificationsTopic_def PreCheckUser_def
          User_EnableNotificationsTopic_def split: if_splits)
    from success [OF user topic acc up]
    have "FindByUsername (snd (EnableNotificationsTopic IsUserReadAccess w u (Some t))) u =
          Some (user\<lparr>TopicsNotificationsDisabled :=
                        removeAll (Topic topic) (TopicsNotificationsDisabled user)\<rparr>)"
      by blast
    moreover have "Topic topic
        \<notin> set (TopicsNotificationsDisabled
                 (user\<lparr>TopicsNotificationsDisabled :=
                         removeAll (Topic topic) (TopicsNotificationsDisabled user)\<rparr>))"
      by simp
    ultimately show "\<exists>user topic user'.
         FindByUsername w u = Some user \<and> FindByTopic w t True = Some topic \<and>
         IsUserReadAccess topic user \<and>
         FindByUsername (snd (EnableNotificationsTopic IsUserReadAccess w u (Some t))) u
           = Some user' \<and>
         Topic topic \<notin> set (TopicsNotificationsDisabled user')"
      using user topic acc by blast
  next
    fix user topic
    assume "FindByUsername w u = Some user \<and> FindByTopic w t True = Some topic \<and>
        \<not> IsUserReadAccess topic user"
    then show "AddFavoriteTopic IsUserReadAccess w u (Some t) =
            (Inl (AbortWithReturnError StatusForbidden ''No Read Access to this topic''), w)"
      and "EnableNotificationsTopic IsUserReadAccess w u (Some t) =
            (Inl (AbortWithReturnError StatusForbidden ''No Read Access to this topic''), w)"
      by (simp_all add: AddFavoriteTopic_def EnableNotificationsTopic_def PreCheckUser_def)
  next
    fix user topic
    assume h: "FindByUsername w u = Some user \<and> FindByTopic w t True = Some topic \<and>
        IsUserReadAccess topic user \<and> \<not> storeDown w"
    then have s: "AddFavoriteTopic IsUserReadAccess w u (Some t) =
          (Inr (JSONInfo StatusCreated (''Topic '' @ Topic topic @ '' added to favorites'')),
           updateUser u
             (\<lambda>x. x\<lparr>FavoriteTopics := List.insert (Topic topic) (FavoriteTopics x)\<rparr>) w) \<and>
        FindByUsername (snd (AddFavoriteTopic IsUserReadAccess w u (Some t))) u =
          Some (user\<lparr>FavoriteTopics := List.insert (Topic topic) (FavoriteTopics user)\<rparr>) \<and>
        EnableNotificationsTopic IsUserReadAccess w u (Some t) =
          (Inr (JSONInfo StatusCreated (''Notications enabled on Topic '' @ Topic topic)),
           updateUser u
             (\<lambda>x. x\<lparr>TopicsNotificationsDisabled :=
                        removeAll (Topic topic) (TopicsNotificationsDisabled x)\<rparr>) w) \<and>
        FindByUsername (snd (EnableNotificationsTopic IsUserReadAccess w u (Some t))) u =
          Some (user\<lparr>TopicsNotificationsDisabled :=
                        removeAll (Topic topic) (TopicsNotificationsDisabled user)\<rparr>)"
      using success [of user topic] by blast
    from s show "AddFavoriteTopic IsUserReadAccess w u (Some t) =
          (Inr (JSONInfo StatusCreated (''Topic '' @ Topic topic @ '' added to favorites'')),
           updateUser u
             (\<lambda>x. x\<lparr>FavoriteTopics := List.insert (Topic topic) (FavoriteTopics x)\<rparr>) w)"
      by blast
    from s show "FindByUsername (snd (AddFavoriteTopic IsUserReadAccess w u (Some t))) u =
          Some (user\<lparr>FavoriteTopics := List.insert (Topic topic) (FavoriteTopics user)\<rparr>)"
      by blast
    from s show "EnableNotificationsTopic IsUserReadAccess w u (Some t) =
          (Inr (JSONInfo StatusCreated (''Notications enabled on Topic '' @ Topic topic)),
           updateUser u
             (\<lambda>x. x\<lparr>TopicsNotificationsDisabled :=
                        removeAll (Topic topic) (TopicsNotificationsDisabled x)\<rparr>) w)"
      by blast
    from s show "FindByUsername (snd (EnableNotificationsTopic IsUserReadAccess w u (Some t))) u =
          Some (user\<lparr>TopicsNotificationsDisabled :=
                        removeAll (Topic topic) (TopicsNotificationsDisabled user)\<rparr>)"
      by blast
  next
    fix user
    assume a: "FindByUsername w u = Some user \<and> \<not> storeDown w"
    define f :: "User \<Rightarrow> User" where
      "f = (\<lambda>x. x\<lparr>FavoriteTopics := removeAll (topicKey t) (FavoriteTopics x)\<rparr>)"
    have name: "Username user = u"
      using a FindByUsername_name by blast
    have r: "RemoveFavoriteTopic w u (Some t) =
        (Inr (JSONInfo StatusOK (''Topic '' @ t @ '' removed from favorites'')),
         updateUser u f w)"
      using a name
      by (simp add: RemoveFavoriteTopic_def PreCheckUser_def User_RemoveFavoriteTopic_def f_def)
    show "fst (RemoveFavoriteTopic w u (Some t)) =
            Inr (JSONInfo StatusOK (''Topic '' @ t @ '' removed from favorites''))"
      by (simp add: r)
    show "FindByUsername (snd (RemoveFavoriteTopic w u (Some t))) u =
            Some (user\<lparr>FavoriteTopics := removeAll (topicKey t) (FavoriteTopics user)\<rparr>)"
      using FindByUsername_updateUser [of f u w] a by (simp add: r f_def)
  qed
qed

lemma mutedWorld_alice:
  "FindByUsername mutedWorld ''alice''
     = Some ((newUser ''alice'' ''Alice A'' ''alice@x.com'')
               \<lparr>TopicsNotificationsDisabled := [''/Private/alice/DM/bob'']\<rparr>)"
  by (simp add: FindByUsername_def mutedWorld_def newUser_def)

lemma mutedWorld_topic:
  "FindByTopic mutedWorld ''Private/alice/DM/bob'' True = Some \<lparr> Topic = ''/Private/alice/DM/bob'' \<rparr>"
  by (simp add: FindByTopic_def topicKey_def mutedWorld_def)

theorem favorite_topic_access_witness:
  "FindByUsername mutedWorld ''alice''
     = Some ((newUser ''alice'' ''Alice A'' ''alice@x.com'')
               \<lparr>TopicsNotificationsDisabled := [''/Private/alice/DM/bob'']\<rparr>) \<and>
   FindByTopic mutedWorld ''Private/alice/DM/bob'' True
     = Some \<lparr> Topic = ''/Private/alice/DM/bob'' \<rparr> \<and>
   \<not> storeDown mutedWorld \<and>
   AddFavoriteTopic allowNone mutedWorld ''alice'' (Some ''Private/alice/DM/bob'') =
     (Inl (AbortWithReturnError StatusForbidden ''No Read Access to this topic''), mutedWorld) \<and>
   EnableNotificationsTopic allowNone mutedWorld ''alice'' (Some ''Private/alice/DM/bob'') =
     (Inl (AbortWithReturnError StatusForbidden ''No Read Access to this topic''), mutedWorld) \<and>
   fst (AddFavoriteTopic allowAll mutedWorld ''alice'' (Some ''Private/alice/DM/bob'')) =
     Inr (JSONInfo StatusCreated ''Topic /Private/alice/DM/bob added to favorites'') \<and>
   FindByUsername (snd (AddFavoriteTopic allowAll mutedWorld ''alice''
                          (Some ''Private/alice/DM/bob''))) ''alice''
     = Some ((newUser ''alice'' ''Alice A'' ''alice@x.com'')
               \<lparr>TopicsNotificationsDisabled := [''/Private/alice/DM/bob''],
                FavoriteTopics := [''/Private/alice/DM/bob'']\<rparr>) \<and>
   fst (EnableNotificationsTopic allowAll mutedWorld ''alice'' (Some ''Private/alice/DM/bob'')) =
     Inr (JSONInfo StatusCreated ''Notications enabled on Topic /Private/alice/DM/bob'') \<and>
   FindByUsername (snd (EnableNotificationsTopic allowAll mutedWorld ''alice''
                          (Some ''Private/alice/DM/bob''))) ''alice''
     = Some (newUser ''alice'' ''Alice A'' ''alice@x.com'') \<and>
   fst (RemoveFavoriteTopic mutedWorld ''alice'' (Some ''Private/alice/DM/bob'')) =
     Inr (JSONInfo StatusOK ''Topic Private/alice/DM/bob removed from favorites'')"
proof -
  let ?alice = "(newUser ''alice'' ''Alice A'' ''alice@x.com'')
               \<lparr>TopicsNotificationsDisabled := [''/Private/alice/DM/bob'']\<rparr>"
  let ?topic = "\<lparr> Topic = ''/Private/alice/DM/bob'' \<rparr>"
  have d: "\<not> storeDown mutedWorld"
    by (simp add: mutedWorld_def)
  have n: "\<not> allowNone ?topic ?alice" and y: "allowAll ?topic ?alice"
    by (simp_all add: allowNone_def allowAll_def)
  from favorite_topic_access [of allowNone mutedWorld "''alice''" "''Private/alice/DM/bob''"]
    mutedWorld_alice mutedWorld_topic n d
  have a: "AddFavoriteTopic allowNone mutedWorld ''alice'' (Some ''Private/alice/DM/bob'') =
     (Inl (AbortWithReturnError StatusForbidden ''No Read Access to this topic''), mutedWorld)"
    and b: "EnableNotificationsTopic allowNone mutedWorld ''alice'' (Some ''Private/alice/DM/bob'') =
     (Inl (AbortWithReturnError StatusForbidden ''No Read Access to this topic''), mutedWorld)"
    and c: "fst (RemoveFavoriteTopic mutedWorld ''alice'' (Some ''Private/alice/DM/bob'')) =
     Inr (JSONInfo StatusOK (''Topic '' @ ''Private/alice/DM/bob'' @ '' removed from favorites''))"
    by blast+
  from favorite_topic_access [of allowAll mutedWorld "''alice''" "''Private/alice/DM/bob''"]
    mutedWorld_alice mutedWorld_topic y d
  have e: "AddFavoriteTopic allowAll mutedWorld ''alice'' (Some ''Private/alice/DM/bob'') =
          (Inr (JSONInfo StatusCreated (''Topic '' @ Topic ?topic @ '' added to favorites'')),
           updateUser ''alice''
             (\<lambda>x. x\<lparr>FavoriteTopics := List.insert (Topic ?topic) (FavoriteTopics x)\<rparr>)
             mutedWorld)"
    and f: "FindByUsername (snd (AddFavoriteTopic allowAll mutedWorld ''alice''
                                  (Some ''Private/alice/DM/bob''))) ''alice'' =
          Some (?alice\<lparr>FavoriteTopics := List.insert (Topic ?topic) (FavoriteTopics ?alice)\<rparr>)"
    and g: "EnableNotificationsTopic allowAll mutedWorld ''alice'' (Some ''Private/alice/DM/bob'') =
          (Inr (JSONInfo StatusCreated (''Notications enabled on Topic '' @ Topic ?topic)),
           updateUser ''alice''
             (\<lambda>x. x\<lparr>TopicsNotificationsDisabled :=
                        removeAll (Topic ?topic) (TopicsNotificationsDisabled x)\<rparr>) mutedWorld)"
    and h: "FindByUsername (snd (EnableNotificationsTopic allowAll mutedWorld ''alice''
                                  (Some ''Private/alice/DM/bob''))) ''alice'' =
          Some (?alice\<lparr>TopicsNotificationsDisabled :=
                        removeAll (Topic ?topic) (TopicsNotificationsDisabled ?alice)\<rparr>)"
    by blast+
  have f': "FindByUsername (snd (AddFavoriteTopic allowAll mutedWorld ''alice''
                          (Some ''Private/alice/DM/bob''))) ''alice''
     = Some ((newUser ''alice'' ''Alice A'' ''alice@x.com'')
               \<lparr>TopicsNotificationsDisabled := [''/Private/alice/DM/bob''],
                FavoriteTopics := [''/Private/alice/DM/bob'']\<rparr>)"
    unfolding f by (simp add: newUser_def)
  have h': "FindByUsername (snd (EnableNotificationsTopic allowAll mutedWorld ''alice''
                          (Some ''Private/alice/DM/bob''))) ''alice''
     = Some (newUser ''alice'' ''Alice A'' ''alice@x.com'')"
    unfolding h by (simp add: newUser_def)
  from a b c d e g f' h' mutedWorld_alice mutedWorld_topic show ?thesis
    by simp
qed

section \<open>Creating a user\<close>

lemma TrimSpace_examples:
  "TrimSpace ''Alice A'' = ''Alice A''"
  "TrimSpace ''Bob B'' = ''Bob B''"
  "TrimSpace ''alice@x.com'' = ''alice@x.com''"
  "TrimSpace '' alice@x.com'' = ''alice@x.com''"
  "TrimSpace ''a  '' = ''a''"
  "TrimSpace [] = []"
  "TrimSpace ''  Alice A'' = ''Alice A''"
  "TrimSpace ''alice@x.com '' = ''alice@x.com''"
  by code_simp+

lemma Create_rejects_short:
  assumes "length (computeUsername cfg j) < 3 \<or> length (TrimSpace (cjFullname j)) < 3
             \<or> length (TrimSpace (cjEmail j)) < 7"
  shows "Create cfg j w =
     (Inl (AbortWithReturnError StatusInternalServerError
             (''Invalid username ('' @ computeUsername cfg j @ '') or fullname (''
                @ TrimSpace (cjFullname j) @ '') or email ('' @ TrimSpace (cjEmail j) @ '')'')), w)"
  using assms by (auto simp: Create_def newUser_def Let_def)

lemma Reset_rejects_short:
  assumes "length (TrimSpace (rjUsername j)) < 3 \<or> length (TrimSpace (rjEmail j)) < 7"
  shows "Reset j w =
     (Inl (AbortWithReturnError StatusInternalServerError
             (''Invalid username ('' @ TrimSpace (rjUsername j) @ '') or email (''
                @ TrimSpace (rjEmail j) @ '')'')), w)"
  using assms by (auto simp: Reset_def newUser_def Let_def)

lemma Create_accepted:
  assumes "\<not> (length (computeUsername cfg j) < 3 \<or> length (TrimSpace (cjFullname j)) < 3
             \<or> length (TrimSpace (cjEmail j)) < 7)"
    and "checkAllowedDomains cfg j = None"
    and "\<not> (IsEmailExists w (cjEmail j) \<or> IsUsernameExists w (cjUsername j)
             \<or> IsFullnameExists w (cjFullname j))"
    and "\<not> storeDown w" and "secrets w = token # rest"
    and "\<not> list_ex (\<lambda>u. Username u = computeUsername cfg j \<or> Email u = TrimSpace (cjEmail j)
                         \<or> Fullname u = TrimSpace (cjFullname j)) (users w)"
  shows "Create cfg j w =
     (Inr (JSONInfo StatusCreated
             (''please check your mail to validate your account.'' @
              (if username_from_email cfg
               then '' Note that configuration of Tat forced your username to ''
                      @ computeUsername cfg j
               else []))),
      w\<lparr>users := users w @
                   [(newUser (computeUsername cfg j) (TrimSpace (cjFullname j))
                       (TrimSpace (cjEmail j)))\<lparr>TokenVerify := token\<rparr>],
         secrets := rest,
         sent := sent w @
                   [SendVerifyEmail (computeUsername cfg j) (TrimSpace (cjEmail j)) token
                      (TrimSpace (cjCallback j)),
                    WSUser ''create'' (computeUsername cfg j)]\<rparr>)"
  using assms by (simp add: Create_def Insert_def issue_def newUser_def Let_def)

lemma Create_success_users:
  assumes "fst (Create cfg j w) = Inr r"
  shows "\<exists>token. users (snd (Create cfg j w)) =
           users w @ [(newUser (computeUsername cfg j) (TrimSpace (cjFullname j))
                         (TrimSpace (cjEmail j)))\<lparr>TokenVerify := token\<rparr>]"
  using assms
  by (auto simp: Create_def Insert_def issue_def newUser_def Let_def
      split: if_splits option.splits sum.splits list.splits)

text \<open>
  What does hold of two requests: after a \<open>Create\<close> that succeeded, a request that
  passes the checks of the lengths and of the domain is rejected with status 400, the
  store as it was, when it carries the same email, fullname or username and the first
  request carried that value as it was persisted (trimmed, and for the username not
  replaced by the policy).
\<close>

lemma Create_duplicate_rejected:
  assumes valid: "\<not> (length (computeUsername cfg j2) < 3 \<or> length (TrimSpace (cjFullname j2)) < 3
             \<or> length (TrimSpace (cjEmail j2)) < 7)"
    and domain: "checkAllowedDomains cfg j2 = None"
    and first: "fst (Create cfg j w) = Inr r"
    and same: "(cjEmail j2 = cjEmail j \<and> TrimSpace (cjEmail j) = cjEmail j) \<or>
               (cjUsername j2 = cjUsername j \<and> computeUsername cfg j = cjUsername j) \<or>
               (cjFullname j2 = cjFullname j \<and> TrimSpace (cjFullname j) = cjFullname j)"
  shows "Create cfg j2 (snd (Create cfg j w)) =
     (Inl (AbortWithReturnError StatusBadRequest
             ''Please check your username, email or fullname. If you are already registered, please reset your password''),
      snd (Create cfg j w))"
proof -
  from Create_success_users [OF first] obtain token where
    u: "users (snd (Create cfg j w)) =
           users w @ [(newUser (computeUsername cfg j) (TrimSpace (cjFullname j))
                         (TrimSpace (cjEmail j)))\<lparr>TokenVerify := token\<rparr>]"
    by blast
  have "IsEmailExists (snd (Create cfg j w)) (cjEmail j2) \<or>
        IsUsernameExists (snd (Create cfg j w)) (cjUsername j2) \<or>
        IsFullnameExists (snd (Create cfg j w)) (cjFullname j2)"
    using same
    by (auto simp: IsEmailExists_def IsUsernameExists_def IsFullnameExists_def u newUser_def)
  with valid domain show ?thesis
    by (simp add: Create_def newUser_def Let_def)
qed

text \<open>
  C7, at the failing input. With the policy off, the request with the username \<open>a\<close>
  followed by two spaces (one byte once trimmed), the fullname \<open>Alice A\<close> and the email
  \<open>alice@x.com\<close> is not rejected: \<open>Create\<close> answers 201 and persists a user under the
  untrimmed name.
\<close>

theorem Create_untrimmed_username:
  "length (TrimSpace ''a  '') < 3 \<and>
   Create cfgPlain
     \<lparr> cjUsername = ''a  '', cjFullname = ''Alice A'', cjEmail = ''alice@x.com'',
       cjCallback = [] \<rparr> emptyWorld =
     (Inr (JSONInfo StatusCreated ''please check your mail to validate your account.''),
      emptyWorld
        \<lparr>users := [(newUser ''a  '' ''Alice A'' ''alice@x.com'')\<lparr>TokenVerify := ''secret1''\<rparr>],
         secrets := [''secret2'', ''secret3''],
         sent := [SendVerifyEmail ''a  '' ''alice@x.com'' ''secret1'' [],
                  WSUser ''create'' ''a  '']\<rparr>)"
proof -
  let ?j = "\<lparr> cjUsername = ''a  '', cjFullname = ''Alice A'', cjEmail = ''alice@x.com'',
       cjCallback = [] \<rparr>"
  have u: "computeUsername cfgPlain ?j = ''a  ''"
    by (simp add: computeUsername_def cfgPlain_def)
  have "Create cfgPlain ?j emptyWorld =
     (Inr (JSONInfo StatusCreated ''please check your mail to validate your account.''),
      emptyWorld
        \<lparr>users := users emptyWorld @
                    [(newUser ''a  '' ''Alice A'' ''alice@x.com'')\<lparr>TokenVerify := ''secret1''\<rparr>],
         secrets := [''secret2'', ''secret3''],
         sent := sent emptyWorld @
                   [SendVerifyEmail ''a  '' ''alice@x.com'' ''secret1'' [],
                    WSUser ''create'' ''a  '']\<rparr>)"
  proof -
    have h1: "\<not> (length (computeUsername cfgPlain ?j) < 3 \<or> length (TrimSpace (cjFullname ?j)) < 3
             \<or> length (TrimSpace (cjEmail ?j)) < 7)"
      by (simp add: u TrimSpace_examples)
    have h2: "checkAllowedDomains cfgPlain ?j = None"
      by (simp add: checkAllowedDomains_def cfgPlain_def)
    have h3: "\<not> (IsEmailExists emptyWorld (cjEmail ?j) \<or> IsUsernameExists emptyWorld (cjUsername ?j)
             \<or> IsFullnameExists emptyWorld (cjFullname ?j))"
      by (simp add: IsEmailExists_def IsUsernameExists_def IsFullnameExists_def emptyWorld_def)
    have h4: "\<not> storeDown emptyWorld"
      and h5: "secrets emptyWorld = ''secret1'' # [''secret2'', ''secret3'']"
      by (simp_all add: emptyWorld_def)
    have p: "\<not> username_from_email cfgPlain"
      by (simp add: cfgPlain_def)
    have h6: "\<not> list_ex (\<lambda>u. Username u = computeUsername cfgPlain ?j
                 \<or> Email u = TrimSpace (cjEmail ?j)
                 \<or> Fullname u = TrimSpace (cjFullname ?j)) (users emptyWorld)"
      by (simp add: emptyWorld_def)
    from Create_accepted [OF h1 h2 h3 h4 h5 h6] show ?thesis
      by (simp add: u p TrimSpace_examples)
  qed
  then show ?thesis
    by (simp add: TrimSpace_examples emptyWorld_def)
qed

lemma Create_store_refuses:
  assumes "\<not> (length (computeUsername cfg j) < 3 \<or> length (TrimSpace (cjFullname j)) < 3
             \<or> length (TrimSpace (cjEmail j)) < 7)"
    and "checkAllowedDomains cfg j = None"
    and "\<not> (IsEmailExists w (cjEmail j) \<or> IsUsernameExists w (cjUsername j)
             \<or> IsFullnameExists w (cjFullname j))"
    and "list_ex (\<lambda>u. Username u = computeUsername cfg j \<or> Email u = TrimSpace (cjEmail j)
                      \<or> Fullname u = TrimSpace (cjFullname j)) (users w)"
  shows "Create cfg j w = (Inl (AbortWithError StatusInternalServerError ''duplicate key''), w)"
  using assms by (simp add: Create_def Insert_def newUser_def Let_def)

text \<open>
  C3, at the failing input. Two requests with the same email, a space followed by
  \<open>alice@x.com\<close>, and different usernames and fullnames. The first is answered 201 and
  persists the email trimmed. On the second the three probes, made on the email with its
  space, find nothing, so the request is not rejected as a duplicate: it reaches the
  insert, fails on the unique constraint of the store and is answered with status 500 and
  the error of the store; the store is as the first request left it, with one user.
\<close>

theorem Create_same_email_twice:
  "fst (Create cfgPlain
          \<lparr> cjUsername = ''alice'', cjFullname = ''Alice A'', cjEmail = '' alice@x.com'',
            cjCallback = [] \<rparr> emptyWorld)
     = Inr (JSONInfo StatusCreated ''please check your mail to validate your account.'') \<and>
   map Email
     (users (snd (Create cfgPlain
                    \<lparr> cjUsername = ''alice'', cjFullname = ''Alice A'',
                      cjEmail = '' alice@x.com'', cjCallback = [] \<rparr> emptyWorld)))
     = [''alice@x.com''] \<and>
   \<not> IsEmailExists
       (snd (Create cfgPlain
               \<lparr> cjUsername = ''alice'', cjFullname = ''Alice A'',
                 cjEmail = '' alice@x.com'', cjCallback = [] \<rparr> emptyWorld))
       '' alice@x.com'' \<and>
   Bind_userCreateJSON
     \<lparr> cjUsername = ''bobby'', cjFullname = ''Bob B'', cjEmail = '' alice@x.com'',
       cjCallback = [] \<rparr> \<and>
   Create_answer cfgPlain
     \<lparr> cjUsername = ''bobby'', cjFullname = ''Bob B'', cjEmail = '' alice@x.com'',
       cjCallback = [] \<rparr>
     (snd (Create cfgPlain
             \<lparr> cjUsername = ''alice'', cjFullname = ''Alice A'',
               cjEmail = '' alice@x.com'', cjCallback = [] \<rparr> emptyWorld))
     = ((StatusInternalServerError,
         Inl (AbortWithError StatusInternalServerError ''duplicate key'')),
        snd (Create cfgPlain
               \<lparr> cjUsername = ''alice'', cjFullname = ''Alice A'',
                 cjEmail = '' alice@x.com'', cjCallback = [] \<rparr> emptyWorld))"
proof -
  let ?j1 = "\<lparr> cjUsername = ''alice'', cjFullname = ''Alice A'', cjEmail = '' alice@x.com'',
            cjCallback = [] \<rparr>"
  let ?j2 = "\<lparr> cjUsername = ''bobby'', cjFullname = ''Bob B'', cjEmail = '' alice@x.com'',
            cjCallback = [] \<rparr>"
  let ?w1 = "emptyWorld
        \<lparr>users := users emptyWorld @
             [(newUser ''alice'' ''Alice A'' ''alice@x.com'')\<lparr>TokenVerify := ''secret1''\<rparr>],
         secrets := [''secret2'', ''secret3''],
         sent := sent emptyWorld @
                   [SendVerifyEmail ''alice'' ''alice@x.com'' ''secret1'' [],
                    WSUser ''create'' ''alice'']\<rparr>"
  have u1: "computeUsername cfgPlain ?j1 = ''alice''"
    and u2: "computeUsername cfgPlain ?j2 = ''bobby''"
    by (simp_all add: computeUsername_def cfgPlain_def)
  have p: "\<not> username_from_email cfgPlain"
    by (simp add: cfgPlain_def)
  have c1: "Create cfgPlain ?j1 emptyWorld =
     (Inr (JSONInfo StatusCreated ''please check your mail to validate your account.''), ?w1)"
  proof -
    have h1: "\<not> (length (computeUsername cfgPlain ?j1) < 3
             \<or> length (TrimSpace (cjFullname ?j1)) < 3
             \<or> length (TrimSpace (cjEmail ?j1)) < 7)"
      by (simp add: u1 TrimSpace_examples)
    have h2: "checkAllowedDomains cfgPlain ?j1 = None"
      by (simp add: checkAllowedDomains_def cfgPlain_def)
    have h3: "\<not> (IsEmailExists emptyWorld (cjEmail ?j1)
             \<or> IsUsernameExists emptyWorld (cjUsername ?j1)
             \<or> IsFullnameExists emptyWorld (cjFullname ?j1))"
      by (simp add: IsEmailExists_def IsUsernameExists_def IsFullnameExists_def emptyWorld_def)
    have h4: "\<not> storeDown emptyWorld"
      and h5: "secrets emptyWorld = ''secret1'' # [''secret2'', ''secret3'']"
      by (simp_all add: emptyWorld_def)
    have h6: "\<not> list_ex (\<lambda>u. Username u = computeUsername cfgPlain ?j1
                 \<or> Email u = TrimSpace (cjEmail ?j1)
                 \<or> Fullname u = TrimSpace (cjFullname ?j1)) (users emptyWorld)"
      by (simp add: emptyWorld_def)
    from Create_accepted [OF h1 h2 h3 h4 h5 h6] show ?thesis
      by (simp add: u1 p TrimSpace_examples)
  qed
  have e: "\<not> IsEmailExists ?w1 '' alice@x.com''"
    by (simp add: IsEmailExists_def emptyWorld_def newUser_def)
  have c2: "Create cfgPlain ?j2 ?w1 =
     (Inl (AbortWithError StatusInternalServerError ''duplicate key''), ?w1)"
  proof -
    have h1: "\<not> (length (computeUsername cfgPlain ?j2) < 3
             \<or> length (TrimSpace (cjFullname ?j2)) < 3
             \<or> length (TrimSpace (cjEmail ?j2)) < 7)"
      by (simp add: u2 TrimSpace_examples)
    have h2: "checkAllowedDomains cfgPlain ?j2 = None"
      by (simp add: checkAllowedDomains_def cfgPlain_def)
    have h3: "\<not> (IsEmailExists ?w1 (cjEmail ?j2) \<or> IsUsernameExists ?w1 (cjUsername ?j2)
             \<or> IsFullnameExists ?w1 (cjFullname ?j2))"
      by (simp add: IsEmailExists_def IsUsernameExists_def IsFullnameExists_def emptyWorld_def
          newUser_def)
    have h4: "list_ex (\<lambda>u. Username u = computeUsername cfgPlain ?j2
                 \<or> Email u = TrimSpace (cjEmail ?j2)
                 \<or> Fullname u = TrimSpace (cjFullname ?j2)) (users ?w1)"
      by (simp add: u2 TrimSpace_examples emptyWorld_def newUser_def)
    from Create_store_refuses [OF h1 h2 h3 h4] show ?thesis .
  qed
  have b: "Bind_userCreateJSON ?j2"
    by (simp add: Bind_userCreateJSON_def)
  have a2: "Create_answer cfgPlain ?j2 ?w1 =
     ((StatusInternalServerError,
       Inl (AbortWithError StatusInternalServerError ''duplicate key'')), ?w1)"
    by (simp add: Create_answer_def answered_def b c2)
  have m: "map Email (users ?w1) = [''alice@x.com'']"
    by (simp add: emptyWorld_def newUser_def)
  from e b a2 m show ?thesis
    unfolding c1 by simp
qed

lemma Create_padded_example:
  "Create cfgFromEmail
     \<lparr> cjUsername = ''zed'', cjFullname = ''  Alice A'', cjEmail = ''alice@x.com '',
       cjCallback = [] \<rparr> emptyWorld =
     (Inr (JSONInfo StatusCreated
        ''please check your mail to validate your account. Note that configuration of Tat forced your username to alice''),
      emptyWorld
        \<lparr>users := users emptyWorld @
             [(newUser ''alice'' ''Alice A'' ''alice@x.com'')\<lparr>TokenVerify := ''secret1''\<rparr>],
         secrets := [''secret2'', ''secret3''],
         sent := sent emptyWorld @
                   [SendVerifyEmail ''alice'' ''alice@x.com'' ''secret1'' [],
                    WSUser ''create'' ''alice'']\<rparr>)"
proof -
  let ?j = "\<lparr> cjUsername = ''zed'', cjFullname = ''  Alice A'', cjEmail = ''alice@x.com '',
       cjCallback = [] \<rparr>"
  have u: "computeUsername cfgFromEmail ?j = ''alice''"
    by (simp add: computeUsername_def cfgFromEmail_def cfgPlain_def)
  have p: "username_from_email cfgFromEmail"
    by (simp add: cfgFromEmail_def)
  have h1: "\<not> (length (computeUsername cfgFromEmail ?j) < 3
             \<or> length (TrimSpace (cjFullname ?j)) < 3
             \<or> length (TrimSpace (cjEmail ?j)) < 7)"
    by (simp add: u TrimSpace_examples)
  have h2: "checkAllowedDomains cfgFromEmail ?j = None"
    by (simp add: checkAllowedDomains_def cfgFromEmail_def cfgPlain_def)
  have h3: "\<not> (IsEmailExists emptyWorld (cjEmail ?j) \<or> IsUsernameExists emptyWorld (cjUsername ?j)
             \<or> IsFullnameExists emptyWorld (cjFullname ?j))"
    by (simp add: IsEmailExists_def IsUsernameExists_def IsFullnameExists_def emptyWorld_def)
  have h4: "\<not> storeDown emptyWorld"
    and h5: "secrets emptyWorld = ''secret1'' # [''secret2'', ''secret3'']"
    by (simp_all add: emptyWorld_def)
  have h6: "\<not> list_ex (\<lambda>u. Username u = computeUsername cfgFromEmail ?j
               \<or> Email u = TrimSpace (cjEmail ?j)
               \<or> Fullname u = TrimSpace (cjFullname ?j)) (users emptyWorld)"
    by (simp add: emptyWorld_def)
  from Create_accepted [OF h1 h2 h3 h4 h5 h6] show ?thesis
    by (simp add: u p TrimSpace_examples)
qed

text \<open>
  C8. In \<open>Create\<close>, once the lengths and the domain are accepted, the request is
  rejected as a duplicate exactly when one of the three probes finds the email, the
  username or the fullname as the request carries them; and whenever \<open>Create\<close>
  succeeds, the user it adds has the trimmed fullname, the trimmed email and the computed
  username, which is the local part of the email when the policy is on and the email has
  an \<open>@\<close> after its first byte. For some requests all three persisted values differ
  from the values probed.
\<close>

theorem Create_probes_raw_values:
  "(\<not> (length (computeUsername cfg j) < 3 \<or> length (TrimSpace (cjFullname j)) < 3
        \<or> length (TrimSpace (cjEmail j)) < 7) \<and>
    checkAllowedDomains cfg j = None \<longrightarrow>
      (fst (Create cfg j w) =
         Inl (AbortWithReturnError StatusBadRequest
                ''Please check your username, email or fullname. If you are already registered, please reset your password''))
      = (IsEmailExists w (cjEmail j) \<or> IsUsernameExists w (cjUsername j)
           \<or> IsFullnameExists w (cjFullname j))) \<and>
   (\<forall>r. fst (Create cfg j w) = Inr r \<longrightarrow>
      (\<exists>token. users (snd (Create cfg j w)) =
         users w @ [(newUser (computeUsername cfg j) (TrimSpace (cjFullname j))
                       (TrimSpace (cjEmail j)))\<lparr>TokenVerify := token\<rparr>])) \<and>
   (username_from_email cfg \<and> 0 < Index (cjEmail j) CHR ''@'' \<longrightarrow>
      computeUsername cfg j = take (nat (Index (cjEmail j) CHR ''@'')) (cjEmail j)) \<and>
   (\<exists>cfg' j' w' r u.
      fst (Create cfg' j' w') = Inr r \<and> users (snd (Create cfg' j' w')) = users w' @ [u] \<and>
      Email u \<noteq> cjEmail j' \<and> Fullname u \<noteq> cjFullname j' \<and> Username u \<noteq> cjUsername j')"
proof (intro conjI impI allI)
  assume "\<not> (length (computeUsername cfg j) < 3 \<or> length (TrimSpace (cjFullname j)) < 3
        \<or> length (TrimSpace (cjEmail j)) < 7) \<and> checkAllowedDomains cfg j = None"
  then show "(fst (Create cfg j w) =
         Inl (AbortWithReturnError StatusBadRequest
                ''Please check your username, email or fullname. If you are already registered, please reset your password''))
      = (IsEmailExists w (cjEmail j) \<or> IsUsernameExists w (cjUsername j)
           \<or> IsFullnameExists w (cjFullname j))"
    by (auto simp: Create_def newUser_def Let_def split: sum.splits)
next
  fix r
  assume "fst (Create cfg j w) = Inr r"
  then show "\<exists>token. users (snd (Create cfg j w)) =
         users w @ [(newUser (computeUsername cfg j) (TrimSpace (cjFullname j))
                       (TrimSpace (cjEmail j)))\<lparr>TokenVerify := token\<rparr>]"
    by (auto simp: Create_def Insert_def issue_def newUser_def Let_def
        split: if_splits option.splits sum.splits list.splits)
next
  assume "username_from_email cfg \<and> 0 < Index (cjEmail j) CHR ''@''"
  then show "computeUsername cfg j = take (nat (Index (cjEmail j) CHR ''@'')) (cjEmail j)"
    by (simp add: computeUsername_def Let_def)
next
  let ?j = "\<lparr> cjUsername = ''zed'', cjFullname = ''  Alice A'', cjEmail = ''alice@x.com '',
       cjCallback = [] \<rparr>"
  let ?u = "(newUser ''alice'' ''Alice A'' ''alice@x.com'')\<lparr>TokenVerify := ''secret1''\<rparr>"
  have "fst (Create cfgFromEmail ?j emptyWorld) = Inr (JSONInfo StatusCreated
        ''please check your mail to validate your account. Note that configuration of Tat forced your username to alice'')"
    by (simp add: Create_padded_example)
  moreover have "users (snd (Create cfgFromEmail ?j emptyWorld)) = users emptyWorld @ [?u]"
    by (simp add: Create_padded_example)
  moreover have "Email ?u \<noteq> cjEmail ?j \<and> Fullname ?u \<noteq> cjFullname ?j \<and> Username ?u \<noteq> cjUsername ?j"
    by (simp add: newUser_def)
  ultimately show "\<exists>cfg' j' w' r u.
      fst (Create cfg' j' w') = Inr r \<and> users (snd (Create cfg' j' w')) = users w' @ [u] \<and>
      Email u \<noteq> cjEmail j' \<and> Fullname u \<noteq> cjFullname j' \<and> Username u \<noteq> cjUsername j'"
    by blast
qed

theorem Create_probes_raw_values_witness:
  "\<not> (length (computeUsername cfgPlain
                 \<lparr> cjUsername = ''bobby'', cjFullname = ''Bob B'',
                   cjEmail = ''alice@x.com'', cjCallback = [] \<rparr>) < 3
        \<or> length (TrimSpace ''Bob B'') < 3 \<or> length (TrimSpace ''alice@x.com'') < 7) \<and>
   checkAllowedDomains cfgPlain
     \<lparr> cjUsername = ''bobby'', cjFullname = ''Bob B'', cjEmail = ''alice@x.com'',
       cjCallback = [] \<rparr> = None \<and>
   IsEmailExists aliceWorld ''alice@x.com'' \<and>
   fst (Create cfgPlain
          \<lparr> cjUsername = ''bobby'', cjFullname = ''Bob B'', cjEmail = ''alice@x.com'',
            cjCallback = [] \<rparr> aliceWorld) =
     Inl (AbortWithReturnError StatusBadRequest
            ''Please check your username, email or fullname. If you are already registered, please reset your password'') \<and>
   \<not> IsEmailExists aliceWorld '' alice@x.com'' \<and>
   fst (Create cfgPlain
          \<lparr> cjUsername = ''bobby'', cjFullname = ''Bob B'', cjEmail = '' alice@x.com'',
            cjCallback = [] \<rparr> aliceWorld) \<noteq>
     Inl (AbortWithReturnError StatusBadRequest
            ''Please check your username, email or fullname. If you are already registered, please reset your password'')"
proof -
  let ?j = "\<lparr> cjUsername = ''bobby'', cjFullname = ''Bob B'', cjEmail = ''alice@x.com'',
            cjCallback = [] \<rparr>"
  let ?k = "\<lparr> cjUsername = ''bobby'', cjFullname = ''Bob B'', cjEmail = '' alice@x.com'',
            cjCallback = [] \<rparr>"
  have u: "computeUsername cfgPlain ?j = ''bobby''" "computeUsername cfgPlain ?k = ''bobby''"
    by (simp_all add: computeUsername_def cfgPlain_def)
  have h1: "\<not> (length (computeUsername cfgPlain ?j) < 3 \<or> length (TrimSpace (cjFullname ?j)) < 3
        \<or> length (TrimSpace (cjEmail ?j)) < 7)"
    by (simp add: u TrimSpace_examples)
  have k1: "\<not> (length (computeUsername cfgPlain ?k) < 3 \<or> length (TrimSpace (cjFullname ?k)) < 3
        \<or> length (TrimSpace (cjEmail ?k)) < 7)"
    by (simp add: u TrimSpace_examples)
  have h2: "checkAllowedDomains cfgPlain ?j = None" "checkAllowedDomains cfgPlain ?k = None"
    by (simp_all add: checkAllowedDomains_def cfgPlain_def)
  have e: "IsEmailExists aliceWorld ''alice@x.com''"
    by (simp add: IsEmailExists_def aliceWorld_def newUser_def)
  have n: "\<not> IsEmailExists aliceWorld '' alice@x.com''"
    "\<not> IsUsernameExists aliceWorld ''bobby''" "\<not> IsFullnameExists aliceWorld ''Bob B''"
    by (simp_all add: IsEmailExists_def IsUsernameExists_def IsFullnameExists_def
        aliceWorld_def newUser_def)
  from Create_probes_raw_values [of cfgPlain ?j aliceWorld] h1 h2 e
  have a: "fst (Create cfgPlain ?j aliceWorld) =
     Inl (AbortWithReturnError StatusBadRequest
            ''Please check your username, email or fullname. If you are already registered, please reset your password'')"
    by simp
  from Create_probes_raw_values [of cfgPlain ?k aliceWorld] k1 h2 n
  have b: "fst (Create cfgPlain ?k aliceWorld) \<noteq>
     Inl (AbortWithReturnError StatusBadRequest
            ''Please check your username, email or fullname. If you are already registered, please reset your password'')"
    by simp
  from h1 h2 e n a b show ?thesis
    by (simp add: TrimSpace_examples)
qed

section \<open>The topic pass of Check\<close>

lemma find_append:
  "find P (xs @ ys) = (case find P xs of None \<Rightarrow> find P ys | Some x \<Rightarrow> Some x)"
  by (induction xs) auto

lemma privateTopicName_key [simp]:
  "topicKey (privateTopicName u s) = privateTopicName u s"
  by (simp add: topicKey_def privateTopicName_def Let_def)

lemma privateTopicName_inj:
  "privateTopicName u s = privateTopicName u s' \<Longrightarrow> s = s'"
  by (auto simp: privateTopicName_def Let_def split: if_splits)

lemma CreatePrivateTopic_name:
  "CreatePrivateTopic w u s =
     (if storeDown w then Inl ''store failure''
      else Inr (w\<lparr>topics := topics w @ [\<lparr> Topic = privateTopicName u s \<rparr>]\<rparr>))"
  by (simp add: CreatePrivateTopic_def privateTopicName_def Let_def)

lemma checkTopic_step:
  "checkTopic fixTopics u (info, w) s = (info @ topicReport fixTopics u w s, topicsAfter fixTopics u w [s])"
  by (cases "FindByTopic w (privateTopicName u s) False")
     (simp_all add: checkTopic_def topicReport_def topicsAfter_def CreatePrivateTopic_name Let_def)

lemma FindByTopic_after_one:
  assumes "s' \<noteq> s"
  shows "FindByTopic (topicsAfter fixTopics u w [s]) (privateTopicName u s') flag
           = FindByTopic w (privateTopicName u s') flag"
proof -
  have "privateTopicName u s \<noteq> privateTopicName u s'"
    using assms privateTopicName_inj by blast
  then show ?thesis
    by (simp add: topicsAfter_def FindByTopic_def find_append split: option.splits)
qed

lemma storeDown_after [simp]: "storeDown (topicsAfter fixTopics u w ss) = storeDown w"
  by (simp add: topicsAfter_def)

lemma topicReport_after_one:
  "s' \<noteq> s \<Longrightarrow> topicReport fixTopics u (topicsAfter fixTopics u w [s]) s' = topicReport fixTopics u w s'"
  by (auto simp: topicReport_def FindByTopic_after_one Let_def)

lemma topicsAfter_Cons:
  assumes "s \<notin> set ss"
  shows "topicsAfter fixTopics u (topicsAfter fixTopics u w [s]) ss
           = topicsAfter fixTopics u w (s # ss)"
proof (cases "fixTopics \<and> \<not> storeDown w")
  case False
  then have "topicsAfter fixTopics u w xs = w" for xs
    by (auto simp: topicsAfter_def)
  then show ?thesis by simp
next
  case True
  define m where "m = (\<lambda>s. \<lparr> Topic = privateTopicName u s \<rparr>)"
  define missing where
    "missing = (\<lambda>w s. FindByTopic w (privateTopicName u s) False = None)"
  define w1 where "w1 = topicsAfter fixTopics u w [s]"
  have a: "topicsAfter fixTopics u w xs = w\<lparr>topics := topics w @ map m (filter (missing w) xs)\<rparr>"
    for xs
    using True by (simp add: topicsAfter_def m_def missing_def)
  have "fixTopics \<and> \<not> storeDown w1"
    using True by (simp add: w1_def)
  then have b: "topicsAfter fixTopics u w1 ss
                  = w1\<lparr>topics := topics w1 @ map m (filter (missing w1) ss)\<rparr>"
    by (simp add: topicsAfter_def m_def missing_def)
  have other: "\<And>x. x \<in> set ss \<Longrightarrow> x \<noteq> s"
    using assms by auto
  have f: "filter (missing w1) ss = filter (missing w) ss"
    unfolding missing_def w1_def
    by (intro filter_cong) (simp_all add: FindByTopic_after_one other)
  have "topicsAfter fixTopics u w1 ss
      = w\<lparr>topics := topics w @ map m (filter (missing w) (s # ss))\<rparr>"
    unfolding b f unfolding w1_def a by simp
  then show ?thesis
    unfolding w1_def a .
qed

lemma checkTopics_fold:
  "distinct ss \<Longrightarrow>
     foldl (checkTopic fixTopics u) (info, w) ss
       = (info @ concat (map (topicReport fixTopics u w) ss), topicsAfter fixTopics u w ss)"
proof (induction ss arbitrary: info w)
  case Nil
  show ?case by (simp add: topicsAfter_def)
next
  case (Cons s ss)
  have other: "\<And>x. x \<in> set ss \<Longrightarrow> x \<noteq> s"
    using Cons.prems by auto
  have r: "map (topicReport fixTopics u (topicsAfter fixTopics u w [s])) ss = map (topicReport fixTopics u w) ss"
    by (intro map_cong) (simp_all add: topicReport_after_one other)
  have "foldl (checkTopic fixTopics u) (info, w) (s # ss)
      = foldl (checkTopic fixTopics u) (info @ topicReport fixTopics u w s, topicsAfter fixTopics u w [s]) ss"
    by (simp add: checkTopic_step)
  also have "\<dots> = ((info @ topicReport fixTopics u w s)
                      @ concat (map (topicReport fixTopics u (topicsAfter fixTopics u w [s])) ss),
                    topicsAfter fixTopics u (topicsAfter fixTopics u w [s]) ss)"
    using Cons.IH Cons.prems by simp
  also have "\<dots> = (info @ concat (map (topicReport fixTopics u w) (s # ss)),
                    topicsAfter fixTopics u w (s # ss))"
    using Cons.prems by (simp add: r topicsAfter_Cons)
  finally show ?case .
qed

lemma distinct_topicNames: "distinct topicNames"
  by (simp add: topicNames_def)

lemma FindByTopic_fixed:
  assumes "s \<in> set ss" and "\<not> storeDown w"
  shows "FindByTopic (topicsAfter True u w ss) (privateTopicName u s) flag \<noteq> None"
proof (cases "FindByTopic w (privateTopicName u s) False")
  case None
  with assms
  have "\<lparr> Topic = privateTopicName u s \<rparr> \<in> set (topics (topicsAfter True u w ss))"
    by (auto simp: topicsAfter_def)
  then have "\<exists>t \<in> set (topics (topicsAfter True u w ss)). Topic t = privateTopicName u s"
    by (intro bexI [where x = "\<lparr> Topic = privateTopicName u s \<rparr>"]) simp_all
  then show ?thesis
    by (auto simp: FindByTopic_def find_None_iff)
next
  case (Some t)
  then show ?thesis
    using assms(2) by (simp add: topicsAfter_def FindByTopic_def find_append)
qed

lemma topicsAfter_fixed:
  assumes "\<forall>s \<in> set ss. FindByTopic w (privateTopicName u s) False \<noteq> None"
  shows "topicsAfter fixTopics u w ss = w"
proof -
  have "filter (\<lambda>s. FindByTopic w (privateTopicName u s) False = None) ss = []"
    using assms by (simp add: filter_empty_conv)
  then show ?thesis by (simp add: topicsAfter_def)
qed

text \<open>
  C5. The topic pass handles the four short names in the order \<open>""\<close>, \<open>Tasks\<close>,
  \<open>Bookmarks\<close>, \<open>Notifications\<close>, and its text is the four records in that order:
  \<open>OK\<close> for a topic that exists, \<open>KO : not exist\<close> for a missing one, followed, when
  fixing, by \<open>created\<close> (or by the failure of the creation). After a pass that fixes,
  in a store that works, a second pass, fixing or not, reports the four topics as \<open>OK\<close>
  and leaves the store as it is, so it creates no topic again.
\<close>

theorem checkTopics_idempotent:
  "checkTopics fixTopics u w =
     (concat (map (topicReport fixTopics u w) [[], ''Tasks'', ''Bookmarks'', ''Notifications'']),
      topicsAfter fixTopics u w [[], ''Tasks'', ''Bookmarks'', ''Notifications'']) \<and>
   (\<not> storeDown w \<longrightarrow>
      checkTopics fixAgain u (snd (checkTopics True u w)) =
        ('' '' @ privateTopicName u [] @ '' OK; '' @
         '' '' @ privateTopicName u ''Tasks'' @ '' OK; '' @
         '' '' @ privateTopicName u ''Bookmarks'' @ '' OK; '' @
         '' '' @ privateTopicName u ''Notifications'' @ '' OK; '',
         snd (checkTopics True u w)))"
proof (intro conjI impI)
  show first: "\<And>fixTopics w. checkTopics fixTopics u w =
     (concat (map (topicReport fixTopics u w) [[], ''Tasks'', ''Bookmarks'', ''Notifications'']),
      topicsAfter fixTopics u w [[], ''Tasks'', ''Bookmarks'', ''Notifications''])"
    using checkTopics_fold [OF distinct_topicNames]
    by (simp add: checkTopics_def topicNames_def)
  assume up: "\<not> storeDown w"
  define w1 where "w1 = topicsAfter True u w topicNames"
  have w1: "snd (checkTopics True u w) = w1"
    by (simp add: first w1_def topicNames_def)
  have found: "\<forall>s \<in> set topicNames. FindByTopic w1 (privateTopicName u s) False \<noteq> None"
    unfolding w1_def using FindByTopic_fixed [OF _ up] by blast
  then have same: "topicsAfter fixAgain u w1 topicNames = w1"
    by (rule topicsAfter_fixed)
  have ok: "\<And>s. s \<in> set topicNames \<Longrightarrow>
      topicReport fixAgain u w1 s = '' '' @ privateTopicName u s @ '' OK; ''"
    using found by (simp add: topicReport_def)
  have "checkTopics fixAgain u w1 =
      (concat (map (topicReport fixAgain u w1) topicNames), topicsAfter fixAgain u w1 topicNames)"
    by (simp add: first topicNames_def)
  also have "\<dots> = (concat (map (\<lambda>s. '' '' @ privateTopicName u s @ '' OK; '') topicNames), w1)"
    using ok same by (simp cong: map_cong)
  finally show "checkTopics fixAgain u (snd (checkTopics True u w)) =
        ('' '' @ privateTopicName u [] @ '' OK; '' @
         '' '' @ privateTopicName u ''Tasks'' @ '' OK; '' @
         '' '' @ privateTopicName u ''Bookmarks'' @ '' OK; '' @
         '' '' @ privateTopicName u ''Notifications'' @ '' OK; '',
         snd (checkTopics True u w))"
    by (simp add: w1 topicNames_def)
qed

theorem checkTopics_idempotent_witness:
  "\<not> storeDown emptyWorld \<and>
   fst (checkTopics True (newUser ''carol'' ''Carol C'' ''carol@x.com'') emptyWorld) =
     '' /Private/carol KO : not exist;  /Private/carol created;  /Private/carol/Tasks KO : not exist;  /Private/carol/Tasks created;  /Private/carol/Bookmarks KO : not exist;  /Private/carol/Bookmarks created;  /Private/carol/Notifications KO : not exist;  /Private/carol/Notifications created; '' \<and>
   map Topic (topics (snd (checkTopics True (newUser ''carol'' ''Carol C'' ''carol@x.com'')
                             emptyWorld))) =
     [''/Private/carol'', ''/Private/carol/Tasks'', ''/Private/carol/Bookmarks'',
      ''/Private/carol/Notifications''] \<and>
   checkTopics True (newUser ''carol'' ''Carol C'' ''carol@x.com'')
       (snd (checkTopics True (newUser ''carol'' ''Carol C'' ''carol@x.com'') emptyWorld)) =
     ('' /Private/carol OK;  /Private/carol/Tasks OK;  /Private/carol/Bookmarks OK;  /Private/carol/Notifications OK; '',
      snd (checkTopics True (newUser ''carol'' ''Carol C'' ''carol@x.com'') emptyWorld))"
proof -
  let ?carol = "newUser ''carol'' ''Carol C'' ''carol@x.com''"
  have d: "\<not> storeDown emptyWorld"
    by (simp add: emptyWorld_def)
  have none: "\<And>path. FindByTopic emptyWorld path False = None"
    by (simp add: FindByTopic_def emptyWorld_def)
  have names: "privateTopicName ?carol [] = ''/Private/carol''"
    "privateTopicName ?carol ''Tasks'' = ''/Private/carol/Tasks''"
    "privateTopicName ?carol ''Bookmarks'' = ''/Private/carol/Bookmarks''"
    "privateTopicName ?carol ''Notifications'' = ''/Private/carol/Notifications''"
    by (simp_all add: privateTopicName_def newUser_def)
  from checkTopics_idempotent [of True ?carol emptyWorld True] d
  have first: "checkTopics True ?carol emptyWorld =
     (concat (map (topicReport True ?carol emptyWorld)
                [[], ''Tasks'', ''Bookmarks'', ''Notifications'']),
      topicsAfter True ?carol emptyWorld [[], ''Tasks'', ''Bookmarks'', ''Notifications''])"
    and second: "checkTopics True ?carol (snd (checkTopics True ?carol emptyWorld)) =
        ('' '' @ privateTopicName ?carol [] @ '' OK; '' @
         '' '' @ privateTopicName ?carol ''Tasks'' @ '' OK; '' @
         '' '' @ privateTopicName ?carol ''Bookmarks'' @ '' OK; '' @
         '' '' @ privateTopicName ?carol ''Notifications'' @ '' OK; '',
         snd (checkTopics True ?carol emptyWorld))"
    by blast+
  have a: "fst (checkTopics True ?carol emptyWorld) =
     '' /Private/carol KO : not exist;  /Private/carol created;  /Private/carol/Tasks KO : not exist;  /Private/carol/Tasks created;  /Private/carol/Bookmarks KO : not exist;  /Private/carol/Bookmarks created;  /Private/carol/Notifications KO : not exist;  /Private/carol/Notifications created; ''"
    unfolding first by (simp add: topicReport_def none names d)
  have b: "map Topic (topics (snd (checkTopics True ?carol emptyWorld))) =
     [''/Private/carol'', ''/Private/carol/Tasks'', ''/Private/carol/Bookmarks'',
      ''/Private/carol/Notifications'']"
    unfolding first by (simp add: topicsAfter_def none names d) (simp add: emptyWorld_def)
  from second have c: "checkTopics True ?carol (snd (checkTopics True ?carol emptyWorld)) =
     ('' /Private/carol OK;  /Private/carol/Tasks OK;  /Private/carol/Bookmarks OK;  /Private/carol/Notifications OK; '',
      snd (checkTopics True ?carol emptyWorld))"
    by (simp add: names)
  from d a b c show ?thesis by simp
qed

end
